theory Spec2Isabelle
  imports Main "HOL-Library.Sublist"
begin

section \<open>Search responses\<close>

text \<open>
  The value returned by the search service, as far as the scripts read it.  A field
  that the scripts guard with \<^verbatim>\<open>hasattr(x, 'f') and x.f\<close> is an option: \<open>None\<close>
  stands for both a missing attribute and a falsy one, since the scripts take the same
  branch for the two.  A list that is only counted or iterated is a plain list.

  The scripts read the citations of a summary as
  \<^verbatim>\<open>summary_with_metadata.citations\<close>, behind \<^verbatim>\<open>hasattr(summary_with_metadata, 'citations')\<close>.
  The field \<open>citations\<close> is that attribute: \<open>None\<close> when the object has no attribute of
  that name.  The message of the client library
  (\<^verbatim>\<open>SearchResponse.Summary.SummaryWithMetadata\<close>) has the fields \<^verbatim>\<open>summary\<close>,
  \<^verbatim>\<open>citation_metadata\<close> and \<^verbatim>\<open>references\<close> and no field \<^verbatim>\<open>citations\<close>: its
  citations are the entries of \<^verbatim>\<open>citation_metadata.citations\<close>, the field
  \<open>citation_metadata\<close> here.
\<close>

record citation_source =
  reference_id :: string
  source_uri :: string

record citation =
  sources :: "citation_source list"

record summary_with_metadata =
  citations :: "citation list option"
  citation_metadata :: "citation list"

record summary =
  summary_text :: string
  summary_with_metadata :: "summary_with_metadata option"

record document =
  doc_id :: string
  struct_data :: "(string \<times> string) list"

record search_result =
  document :: document

record search_response =
  results :: "search_result list"
  summary :: "summary option"

section \<open>Selection of the best response (advanced\_research.py)\<close>

text \<open>
  \<^verbatim>\<open>has_summary = hasattr(response, 'summary') and response.summary
                and response.summary.summary_text\<close>
\<close>

definition has_summary :: "search_response \<Rightarrow> bool" where
  "has_summary response =
     (case summary response of None \<Rightarrow> False | Some s \<Rightarrow> summary_text s \<noteq> [])"

text \<open>
  \<^verbatim>\<open>citation_count = 0
  if hasattr(response, 'summary') and response.summary:
      if hasattr(response.summary, 'summary_with_metadata') and response.summary.summary_with_metadata:
          if hasattr(response.summary.summary_with_metadata, 'citations'):
              citation_count = len(response.summary.summary_with_metadata.citations)\<close>
\<close>

definition citation_count :: "search_response \<Rightarrow> int" where
  "citation_count response =
     (case summary response of
        None \<Rightarrow> 0
      | Some s \<Rightarrow>
          (case summary_with_metadata s of
             None \<Rightarrow> 0
           | Some m \<Rightarrow>
               (case citations m of
                  None \<Rightarrow> 0
                | Some cited \<Rightarrow> int (length cited))))"

text \<open>
  A response as the client library builds it: its summary metadata, if any, has no
  attribute \<^verbatim>\<open>citations\<close>.
\<close>

definition from_client_library :: "search_response \<Rightarrow> bool" where
  "from_client_library response =
     (case summary response of
        None \<Rightarrow> True
      | Some s \<Rightarrow>
          (case summary_with_metadata s of
             None \<Rightarrow> True
           | Some m \<Rightarrow> citations m = None))"

text \<open>
  \<^verbatim>\<open>score = result_count * 2 + (50 if has_summary else 0) + citation_count * 10\<close>
\<close>

definition score :: "search_response \<Rightarrow> int" where
  "score response =
     int (length (results response)) * 2
       + (if has_summary response then 50 else 0)
       + citation_count response * 10"

text \<open>
  The \<^verbatim>\<open>for\<close> loop of \<^verbatim>\<open>select_best_result\<close>, with its two variables
  \<^verbatim>\<open>best_response\<close> and \<^verbatim>\<open>best_score\<close> as arguments.  An absent entry
  (\<^verbatim>\<open>if not response: continue\<close>) is skipped.
\<close>

fun select_loop ::
  "search_response option list \<Rightarrow> search_response option \<Rightarrow> int \<Rightarrow> search_response option"
where
  "select_loop [] best_response best_score = best_response"
| "select_loop (None # rest) best_response best_score =
     select_loop rest best_response best_score"
| "select_loop (Some response # rest) best_response best_score =
     (if score response > best_score
      then select_loop rest (Some response) (score response)
      else select_loop rest best_response best_score)"

definition select_best_result :: "search_response option list \<Rightarrow> search_response option" where
  "select_best_result responses = select_loop responses None 0"

section \<open>Python strings\<close>

text \<open>
  A Python \<^verbatim>\<open>str\<close> is a \<^typ>\<open>string\<close>; the character with code \<open>n\<close> stands for the
  code point U+00\<open>n\<close>, so the model covers the texts of the Latin-1 range, which holds
  every character of the scripts' own tables.  On that range the functions below are
  the methods of \<^verbatim>\<open>str\<close>.
\<close>

abbreviation e_acute :: string where "e_acute \<equiv> [CHR 0xE9]"
abbreviation e_grave :: string where "e_grave \<equiv> [CHR 0xE8]"
abbreviation u_circ :: string where "u_circ \<equiv> [CHR 0xFB]"
abbreviation i_diaer :: string where "i_diaer \<equiv> [CHR 0xEF]"

text \<open>\<^verbatim>\<open>s.lower()\<close>: the upper-case letters are A-Z and U+00C0..U+00DE without U+00D7.\<close>

definition is_upper_char :: "char \<Rightarrow> bool" where
  "is_upper_char c =
     (let n = (of_char c :: nat)
      in (65 \<le> n \<and> n \<le> 90) \<or> (192 \<le> n \<and> n \<le> 222 \<and> n \<noteq> 215))"

definition lower_char :: "char \<Rightarrow> char" where
  "lower_char c = (if is_upper_char c then char_of ((of_char c :: nat) + 32) else c)"

definition str_lower :: "string \<Rightarrow> string" where
  "str_lower s = map lower_char s"

text \<open>\<^verbatim>\<open>needle in haystack\<close>\<close>

fun str_in :: "string \<Rightarrow> string \<Rightarrow> bool" where
  "str_in needle [] = (needle = [])"
| "str_in needle (c # cs) = (prefix needle (c # cs) \<or> str_in needle cs)"

text \<open>
  \<^verbatim>\<open>s.replace(old, new)\<close>: every occurrence of \<^verbatim>\<open>old\<close>, found from left to right
  without overlap; an empty \<^verbatim>\<open>old\<close> matches before every character and at the end.
\<close>

fun replace_nonempty :: "string \<Rightarrow> string \<Rightarrow> string \<Rightarrow> string" where
  "replace_nonempty old new [] = []"
| "replace_nonempty old new (c # cs) =
     (if old \<noteq> [] \<and> prefix old (c # cs)
      then new @ replace_nonempty old new (drop (length old) (c # cs))
      else c # replace_nonempty old new cs)"

definition str_replace :: "string \<Rightarrow> string \<Rightarrow> string \<Rightarrow> string" where
  "str_replace s old new =
     (if old = [] then new @ concat (map (\<lambda>c. c # new) s) else replace_nonempty old new s)"

text \<open>
  \<^verbatim>\<open>s.split()\<close>: the maximal runs of characters that are not white space
  (\<^verbatim>\<open>str.isspace\<close> on the Latin-1 range).
\<close>

definition is_space :: "char \<Rightarrow> bool" where
  "is_space c =
     (let n = (of_char c :: nat)
      in (9 \<le> n \<and> n \<le> 13) \<or> (28 \<le> n \<and> n \<le> 32) \<or> n = 133 \<or> n = 160)"

fun split_words :: "string \<Rightarrow> string \<Rightarrow> string list" where
  "split_words word [] = (if word = [] then [] else [word])"
| "split_words word (c # cs) =
     (if is_space c
      then (if word = [] then split_words [] cs else word # split_words [] cs)
      else split_words (word @ [c]) cs)"

definition str_split :: "string \<Rightarrow> string list" where
  "str_split s = split_words [] s"

text \<open>\<^verbatim>\<open>s.split(sep)\<close> for a one-character separator: never an empty list.\<close>

fun split_fields :: "char \<Rightarrow> string \<Rightarrow> string \<Rightarrow> string list" where
  "split_fields sep field [] = [field]"
| "split_fields sep field (c # cs) =
     (if c = sep then field # split_fields sep [] cs else split_fields sep (field @ [c]) cs)"

definition str_split_on :: "char \<Rightarrow> string \<Rightarrow> string list" where
  "str_split_on sep s = split_fields sep [] s"

text \<open>
  \<^verbatim>\<open>urllib.parse.unquote(string)\<close> is a function of Python's library, not of this
  repository.  Its result can leave the Latin-1 range, so it is a list of code points
  (\<open>code_points\<close> gives the code points of a text of the model).  The library function
  returns a text without \<^verbatim>\<open>%\<close> as it is.  Otherwise it cuts the text into its
  maximal runs of ASCII characters and the characters between them; the latter are kept,
  and each ASCII run is turned into bytes by \<^verbatim>\<open>unquote_to_bytes\<close> (every \<^verbatim>\<open>%XY\<close> with
  two hexadecimal digits becomes the byte of that value, everything else stays; an
  escape is read once, from the text as it stands) and the bytes are decoded as UTF-8
  with \<^verbatim>\<open>errors='replace'\<close>.
\<close>

definition code_points :: "string \<Rightarrow> nat list" where
  "code_points s = map of_char s"

definition hex_value :: "char \<Rightarrow> nat option" where
  "hex_value c =
     (let n = (of_char c :: nat)
      in if 48 \<le> n \<and> n \<le> 57 then Some (n - 48)
         else if 65 \<le> n \<and> n \<le> 70 then Some (n - 55)
         else if 97 \<le> n \<and> n \<le> 102 then Some (n - 87)
         else None)"

fun unquote_to_bytes :: "string \<Rightarrow> nat list" where
  "unquote_to_bytes (c # h1 # h2 # rest) =
     (case (c = CHR ''%'', hex_value h1, hex_value h2) of
        (True, Some a, Some b) \<Rightarrow> (16 * a + b) # unquote_to_bytes rest
      | _ \<Rightarrow> of_char c # unquote_to_bytes (h1 # h2 # rest))"
| "unquote_to_bytes (c # cs) = of_char c # unquote_to_bytes cs"
| "unquote_to_bytes [] = []"

text \<open>
  \<^verbatim>\<open>bytes.decode('utf-8', 'replace')\<close>: a well-formed sequence of one to four bytes
  gives its code point.  The second byte of a sequence has a range of its own after the
  lead bytes E0, ED, F0 and F4 (no overlong form, no surrogate, nothing above U+10FFFF).
  A byte that cannot start a sequence, and a sequence that is cut short (by a byte that
  cannot continue it, or by the end), give one U+FFFD for the bytes read so far;
  decoding goes on at the byte that did not fit.
\<close>

definition continuation :: "nat \<Rightarrow> bool" where
  "continuation b = (128 \<le> b \<and> b \<le> 191)"

definition replacement_character :: nat where
  "replacement_character = 65533"

fun decode_utf8 :: "nat list \<Rightarrow> nat list" where
  "decode_utf8 [] = []"
| "decode_utf8 (b0 # bs) =
     (if b0 < 128 then b0 # decode_utf8 bs
      else if 194 \<le> b0 \<and> b0 \<le> 223 then
        (case bs of
           [] \<Rightarrow> [replacement_character]
         | b1 # r1 \<Rightarrow>
             if continuation b1 then ((b0 - 192) * 64 + (b1 - 128)) # decode_utf8 r1
             else replacement_character # decode_utf8 bs)
      else if 224 \<le> b0 \<and> b0 \<le> 239 then
        (case bs of
           [] \<Rightarrow> [replacement_character]
         | b1 # r1 \<Rightarrow>
             if (if b0 = 224 then 160 else 128) \<le> b1 \<and> b1 \<le> (if b0 = 237 then 159 else 191) then
               (case r1 of
                  [] \<Rightarrow> [replacement_character]
                | b2 # r2 \<Rightarrow>
                    if continuation b2
                    then ((b0 - 224) * 4096 + (b1 - 128) * 64 + (b2 - 128)) # decode_utf8 r2
                    else replacement_character # decode_utf8 r1)
             else replacement_character # decode_utf8 bs)
      else if 240 \<le> b0 \<and> b0 \<le> 244 then
        (case bs of
           [] \<Rightarrow> [replacement_character]
         | b1 # r1 \<Rightarrow>
             if (if b0 = 240 then 144 else 128) \<le> b1 \<and> b1 \<le> (if b0 = 244 then 143 else 191) then
               (case r1 of
                  [] \<Rightarrow> [replacement_character]
                | b2 # r2 \<Rightarrow>
                    if continuation b2 then
                      (case r2 of
                         [] \<Rightarrow> [replacement_character]
                       | b3 # r3 \<Rightarrow>
                           if continuation b3
                           then ((b0 - 240) * 262144 + (b1 - 128) * 4096 + (b2 - 128) * 64
                                   + (b3 - 128)) # decode_utf8 r3
                           else replacement_character # decode_utf8 r2)
                    else replacement_character # decode_utf8 r1)
             else replacement_character # decode_utf8 bs)
      else replacement_character # decode_utf8 bs)"

text \<open>The runs: \<open>ascii\<close> is the ASCII run read so far.\<close>

fun unquote_parts :: "string \<Rightarrow> string \<Rightarrow> nat list" where
  "unquote_parts ascii [] = decode_utf8 (unquote_to_bytes ascii)"
| "unquote_parts ascii (c # cs) =
     (if (of_char c :: nat) < 128 then unquote_parts (ascii @ [c]) cs
      else decode_utf8 (unquote_to_bytes ascii) @ of_char c # unquote_parts [] cs)"

definition unquote :: "string \<Rightarrow> nat list" where
  "unquote s = (if CHR ''%'' \<notin> set s then code_points s else unquote_parts [] s)"

text \<open>The exceptions that the modelled code raises or catches (all below \<^verbatim>\<open>Exception\<close>).\<close>

datatype exn = IndexError | KeyError string | ServiceError string

section \<open>Template variables (both scripts)\<close>

text \<open>
  The configuration is the parsed \<^verbatim>\<open>prompts_config.json\<close>.  A Python \<^verbatim>\<open>dict\<close> is an
  association list in insertion order (its keys are distinct); a key that may be missing
  makes the field an option.  A prompt entry is a dictionary of strings.
\<close>

datatype json_value = JString string | JInt int | JBool bool | JNull

record config =
  prompts_config :: "(string \<times> (string \<times> string) list) list option"
  prompts_config_final :: "(string \<times> (string \<times> string) list) list option"
  template_dictionary :: "(string \<times> json_value) list option"
  default_settings :: "(string \<times> string) list option"

text \<open>\<^verbatim>\<open>str(value)\<close>\<close>

fun str_of_nat :: "nat \<Rightarrow> string" where
  "str_of_nat n =
     (if n < 10 then [char_of (48 + n)] else str_of_nat (n div 10) @ [char_of (48 + n mod 10)])"

fun py_str :: "json_value \<Rightarrow> string" where
  "py_str (JString s) = s"
| "py_str (JInt i) = (if i < 0 then CHR ''-'' # str_of_nat (nat (- i)) else str_of_nat (nat i))"
| "py_str (JBool b) = (if b then ''True'' else ''False'')"
| "py_str JNull = ''None''"

text \<open>One round of the loop over \<^verbatim>\<open>template_dict.items()\<close>.\<close>

definition replace_placeholder :: "string \<Rightarrow> string \<times> json_value \<Rightarrow> string" where
  "replace_placeholder result kv =
     (case kv of (key, value) \<Rightarrow> str_replace result (''{'' @ key @ ''}'') (py_str value))"

text \<open>
  \<^verbatim>\<open>if not config or "template_dictionary" not in config: return text\<close>: the
  configuration is \<open>None\<close> when it could not be loaded, and an empty dictionary has no
  \<^verbatim>\<open>template_dictionary\<close> either.
\<close>

definition replace_template_variables :: "string \<Rightarrow> config option \<Rightarrow> string" where
  "replace_template_variables text config =
     (case config of
        None \<Rightarrow> text
      | Some cfg \<Rightarrow>
          (case template_dictionary cfg of
             None \<Rightarrow> text
           | Some template_dict \<Rightarrow> foldl replace_placeholder text template_dict))"

section \<open>Query variants (advanced\_research.py)\<close>

definition synonym_mappings :: "(string \<times> (string \<times> string) list) list" where
  "synonym_mappings =
     [(''CHIFFRE_AFFAIRES'',
       [(''chiffre d'affaires'',
         ''chiffre d'affaires revenus ventes turnover CA recettes''),
        (e_acute @ ''volution'',
         e_acute @ ''volution croissance progression variation d'' @ e_acute @ ''veloppement''),
        (''Reno Energy'',
         ''Reno Energy entreprise soci'' @ e_acute @ ''t'' @ e_acute)]),
      (''CONCURRENCE'',
       [(''concurrence'',
         ''concurrence concurrents comp'' @ e_acute @ ''titeurs acteurs march'' @ e_acute @ '' rivals''),
        (''positionnement'',
         ''positionnement strat'' @ e_acute @ ''gie diff'' @ e_acute @ ''renciation avantage''),
        (''march'' @ e_acute,
         ''march'' @ e_acute @ '' secteur industrie segment '' @ e_acute @ ''cosyst'' @ e_grave @ ''me'')]),
      (''MARGE_BRUTE'',
       [(''marge'',
         ''marge brute profitabilit'' @ e_acute @ '' rentabilit'' @ e_acute @ '' margin profit''),
        (''co'' @ u_circ @ ''ts'',
         ''co'' @ u_circ @ ''ts charges d'' @ e_acute @ ''penses frais prix revient'')]),
      (''OPERATION'',
       [(''acquisition'',
         ''acquisition rachat investissement op'' @ e_acute @ ''ration transaction deal''),
        (''valorisation'',
         ''valorisation valeur prix montant '' @ e_acute @ ''valuation''),
        (''EODEN'',
         ''EODEN investisseur acqu'' @ e_acute @ ''reur fonds'')]),
      (''PERSONNE_CLE'',
       [(''dirigeants'',
         ''dirigeants management '' @ e_acute @ ''quipe leadership team''),
        (''profil'',
         ''profil exp'' @ e_acute @ ''rience parcours background'')])]"

definition technical_terms :: "(string \<times> string) list" where
  "technical_terms =
     [(''CHIFFRE_AFFAIRES'',
       ''Reno Energy chiffre affaires revenue financier EODEN 2024''),
      (''CONCURRENCE'',
       ''Reno Energy concurrence competitive march'' @ e_acute @ '' secteur 2024''),
      (''MARGE_BRUTE'',
       ''Reno Energy marge profitabilit'' @ e_acute @ '' co'' @ u_circ @ ''ts rentabilit'' @ e_acute),
      (''OPERATION'',
       ''Reno Energy acquisition EODEN transaction op'' @ e_acute @ ''ration investissement 2024''),
      (''PERSONNE_CLE'',
       ''Reno Energy management dirigeants '' @ e_acute @ ''quipe direction'')]"

definition short_terms :: "(string \<times> string) list" where
  "short_terms =
     [(''CHIFFRE_AFFAIRES'',
       ''Reno Energy chiffre affaires EODEN 2024''),
      (''CONCURRENCE'',
       ''Reno Energy concurrents march'' @ e_acute @ '' 2024''),
      (''MARGE_BRUTE'',
       ''Reno Energy marge rentabilit'' @ e_acute),
      (''OPERATION'',
       ''Reno Energy acquisition EODEN 2024''),
      (''PERSONNE_CLE'',
       ''Reno Energy dirigeants management'')]"

definition priority_terms :: "(string \<times> string) list" where
  "priority_terms =
     [(''CHIFFRE_AFFAIRES'',
       ''financier chiffre affaires revenue CA 2024 2023''),
      (''CONCURRENCE'',
       ''march'' @ e_acute @ '' concurrence competitive secteur 2024''),
      (''OPERATION'',
       ''acquisition EODEN op'' @ e_acute @ ''ration transaction investissement 2024''),
      (''MARGE_BRUTE'',
       ''marge profitabilit'' @ e_acute @ '' rentabilit'' @ e_acute @ '' co'' @ u_circ @ ''ts''),
      (''PERSONNE_CLE'',
       ''management '' @ e_acute @ ''quipe dirigeants organigramme''),
      (''MARCHE'',
       ''march'' @ e_acute @ '' secteur '' @ e_acute @ ''nergies renouvelables photovolta'' @ i_diaer @ ''que''),
      (''PRESENTATION'',
       ''pr'' @ e_acute @ ''sentation profil entreprise soci'' @ e_acute @ ''t'' @ e_acute @ '' Reno Energy'')]"

definition create_enhanced_query_with_context :: "string \<Rightarrow> string \<Rightarrow> string" where
  "create_enhanced_query_with_context base_query prompt_type =
     (let enhanced_query =
            (case map_of priority_terms prompt_type of
               Some terms \<Rightarrow> base_query @ '' '' @ terms
             | None \<Rightarrow> base_query)
      in enhanced_query @ '' EODEN 2024 2023'')"

text \<open>
  One round of the loop over the synonyms of the category:
  \<^verbatim>\<open>if term.lower() in enriched_query.lower():
      enriched_query = enriched_query.replace(term, synonyms)\<close>
\<close>

definition enrich_step :: "string \<Rightarrow> string \<times> string \<Rightarrow> string" where
  "enrich_step enriched_query pair =
     (case pair of (term, synonyms) \<Rightarrow>
        if str_in (str_lower term) (str_lower enriched_query)
        then str_replace enriched_query term synonyms
        else enriched_query)"

definition enrich_with_synonyms :: "string \<Rightarrow> string \<Rightarrow> string" where
  "enrich_with_synonyms base_query prompt_type =
     (case map_of synonym_mappings prompt_type of
        Some pairs \<Rightarrow> foldl enrich_step base_query pairs
      | None \<Rightarrow> base_query)"

text \<open>
  The default of \<^verbatim>\<open>short_terms.get(prompt_type, f"Reno Energy {base_query.split()[0]} 2024")\<close>
  is an argument of the call: Python evaluates it for every category, and
  \<^verbatim>\<open>base_query.split()[0]\<close> raises \<^verbatim>\<open>IndexError\<close> when the query has no word.
\<close>

definition create_optimized_queries :: "string \<Rightarrow> string \<Rightarrow> exn + string list" where
  "create_optimized_queries base_query prompt_type =
     (let enriched_query =
            create_enhanced_query_with_context
              (enrich_with_synonyms base_query prompt_type) prompt_type;
          technical_query =
            base_query @ '' '' @
              (case map_of technical_terms prompt_type of
                 Some terms \<Rightarrow> terms
               | None \<Rightarrow> ''Reno Energy 2024'')
      in case str_split base_query of
           [] \<Rightarrow> Inl IndexError
         | first_word # _ \<Rightarrow>
             (let fallback = ''Reno Energy '' @ first_word @ '' 2024'';
                  short_query =
                    (case map_of short_terms prompt_type of
                       Some terms \<Rightarrow> terms
                     | None \<Rightarrow> fallback)
              in Inr [enriched_query, technical_query, short_query]))"

section \<open>Search requests and their execution (advanced\_research.py)\<close>

datatype expansion_condition = AUTO_expansion
datatype spell_correction_mode = AUTO_correction

record search_request =
  serving_config :: string
  query :: string
  page_size :: int
  return_snippet :: bool
  max_snippet_count :: int
  summary_result_count :: int
  include_citations :: bool
  ignore_adversarial_query :: bool
  ignore_non_summary_seeking_query :: bool
  preamble :: string
  query_expansion :: expansion_condition
  spell_correction :: spell_correction_mode
  safe_search :: bool

definition create_optimized_request ::
  "string \<Rightarrow> string \<Rightarrow> string \<Rightarrow> string \<Rightarrow> search_request" where
  "create_optimized_request query' prompt_type system_prompt serving_config' =
     \<lparr>serving_config = serving_config',
      query = query',
      page_size = 25,
      return_snippet = True,
      max_snippet_count = 5,
      summary_result_count = 20,
      include_citations = True,
      ignore_adversarial_query = True,
      ignore_non_summary_seeking_query = False,
      preamble = system_prompt,
      query_expansion = AUTO_expansion,
      spell_correction = AUTO_correction,
      safe_search = True\<rparr>"

text \<open>
  The search client is the external service: a request gets a response, or the call
  raises.  What the scripts print is a list of printouts, one constructor for each
  \<^verbatim>\<open>print\<close> that the properties below tell apart.
\<close>

type_synonym client = "search_request \<Rightarrow> exn + search_response"

datatype printout =
    VariableNotFound string
  | Heading string
  | SearchWarning exn
  | NoResultObtained
  | Displayed search_response
  | ErrorReport exn

text \<open>
  \<^verbatim>\<open>try: return client.search(request)
  except Exception as e: print(...); return None\<close>
\<close>

definition execute_single_search :: "client \<Rightarrow> search_request \<Rightarrow> printout list \<times> search_response option" where
  "execute_single_search client request =
     (case client request of
        Inr response \<Rightarrow> ([], Some response)
      | Inl e \<Rightarrow> ([SearchWarning e], None))"

text \<open>
  The three futures are submitted in the order of the queries and collected by
  \<^verbatim>\<open>as_completed\<close> in the order in which they finish: \<open>order\<close> lists the positions
  of the futures in that order (a permutation of the positions).
\<close>

definition as_completed :: "nat list \<Rightarrow> 'a list \<Rightarrow> 'a list" where
  "as_completed order futures = map (\<lambda>i. futures ! i) order"

record environment =
  open_client :: "exn + client"
  completion_order :: "nat list"

definition PROJECT_ID :: string where "PROJECT_ID = ''eoden-465407''"
definition DATA_STORE_ID :: string where "DATA_STORE_ID = ''eoden-store-v2_1753786474509''"
definition LOCATION :: string where "LOCATION = ''global''"

definition dict_get :: "(string \<times> 'a) list option \<Rightarrow> string \<Rightarrow> 'a option" where
  "dict_get section key = (case section of None \<Rightarrow> None | Some d \<Rightarrow> map_of d key)"

text \<open>
  The look-up of the prompt in the two sections; an entry that is an empty dictionary
  is falsy and counts as missing.
\<close>

definition find_prompt_data :: "string \<Rightarrow> config \<Rightarrow> (string \<times> string) list option" where
  "find_prompt_data prompt_key config =
     (case dict_get (prompts_config config) prompt_key of
        Some (e # entries) \<Rightarrow> Some (e # entries)
      | _ \<Rightarrow>
        (case dict_get (prompts_config_final config) prompt_key of
           Some (e # entries) \<Rightarrow> Some (e # entries)
         | _ \<Rightarrow> None))"

definition build_system_prompt :: "string \<Rightarrow> config \<Rightarrow> string \<Rightarrow> string" where
  "build_system_prompt prompt_key config instructions =
     (let base_instruction =
            (case dict_get (default_settings config) ''base_instruction'' of
               Some b \<Rightarrow> b | None \<Rightarrow> '''');
          base_instruction =
            (if dict_get (prompts_config_final config) prompt_key \<noteq> None
             then (case dict_get (default_settings config) ''base_instruction_final'' of
                     Some b \<Rightarrow> b | None \<Rightarrow> base_instruction)
             else base_instruction)
      in if instructions \<noteq> [] then base_instruction @ [CHR 0x0A, CHR 0x0A] @ instructions
         else base_instruction)"

text \<open>
  From the creation of the queries to the return, inside the \<^verbatim>\<open>try\<close>: an
  exception of \<^verbatim>\<open>create_optimized_queries\<close> is caught by
  \<^verbatim>\<open>except Exception\<close>, reported, and the function returns \<^verbatim>\<open>None\<close>.
  The warnings of the worker threads are listed in the order in which the requests
  complete (the properties below speak of which lines are printed and of the last one,
  not of the order of the warnings), and \<^verbatim>\<open>display_results\<close> is one printout.
\<close>

definition search_and_select ::
  "client \<Rightarrow> nat list \<Rightarrow> string \<Rightarrow> string \<Rightarrow> string \<Rightarrow> printout list \<times> search_response option" where
  "search_and_select client order base_query prompt_key system_prompt =
     (let serving_config =
            ''projects/'' @ PROJECT_ID @ ''/locations/'' @ LOCATION @ ''/dataStores/'' @
            DATA_STORE_ID @ ''/servingConfigs/default_config''
      in case create_optimized_queries base_query prompt_key of
           Inl e \<Rightarrow> ([ErrorReport e], None)
         | Inr optimized_queries \<Rightarrow>
             (let requests =
                    map (\<lambda>q. create_optimized_request q prompt_key system_prompt serving_config)
                      optimized_queries;
                  futures = map (execute_single_search client) requests;
                  completed = as_completed order futures;
                  responses = map snd completed;
                  warnings = concat (map fst completed)
              in case select_best_result responses of
                   None \<Rightarrow> (warnings @ [NoResultObtained], None)
                 | Some best_response \<Rightarrow>
                     (warnings @ [Displayed best_response], Some best_response)))"

text \<open>
  \<^verbatim>\<open>execute_optimized_prompt(prompt_key, config)\<close>.  \<^verbatim>\<open>prompt_data["prompt"]\<close>
  stands before the \<^verbatim>\<open>try\<close>: its \<^verbatim>\<open>KeyError\<close> reaches the caller (\<open>Inl\<close>).
  Opening the client (the credentials file and the service client) is inside the
  \<^verbatim>\<open>try\<close>.
\<close>

definition execute_optimized_prompt ::
  "environment \<Rightarrow> string \<Rightarrow> config \<Rightarrow> exn + (printout list \<times> search_response option)" where
  "execute_optimized_prompt env prompt_key config =
     (case find_prompt_data prompt_key config of
        None \<Rightarrow> Inr ([VariableNotFound prompt_key], None)
      | Some prompt_data \<Rightarrow>
          (case map_of prompt_data ''prompt'' of
             None \<Rightarrow> Inl (KeyError ''prompt'')
           | Some prompt \<Rightarrow>
               (let base_query = replace_template_variables prompt (Some config);
                    instructions =
                      replace_template_variables
                        (case map_of prompt_data ''instructions'' of
                           Some i \<Rightarrow> i | None \<Rightarrow> '''')
                        (Some config);
                    system_prompt = build_system_prompt prompt_key config instructions
                in case open_client env of
                     Inl e \<Rightarrow> Inr ([Heading prompt_key, ErrorReport e], None)
                   | Inr client \<Rightarrow>
                       (case search_and_select client (completion_order env)
                               base_query prompt_key system_prompt of
                          (printed, best) \<Rightarrow> Inr (Heading prompt_key # printed, best)))))"

section \<open>Names of documents (eoden\_simple\_prompt.py)\<close>

text \<open>
  A name is a list of code points, since \<^verbatim>\<open>unquote\<close> can give characters outside the
  Latin-1 range; the fixed markers and the fields of the structured data are texts of
  the model, taken to their code points.
\<close>

definition extract_document_name :: "string \<Rightarrow> nat list" where
  "extract_document_name uri =
     (if uri = [] then code_points ''Document inconnu''
      else
        (let filename = last (str_split_on (CHR ''/'') uri)
         in if filename \<noteq> [] then unquote filename else code_points ''Document sans nom''))"

text \<open>
  The name that \<^verbatim>\<open>execute_prompt\<close> stores in \<^verbatim>\<open>document_mapping\<close> for a result
  document (the body of its loop over the results); \<^verbatim>\<open>d.get(k, '')\<close> is
  \<open>get_or_empty\<close>.
\<close>

definition get_or_empty :: "(string \<times> string) list \<Rightarrow> string \<Rightarrow> string" where
  "get_or_empty d key = (case map_of d key of Some v \<Rightarrow> v | None \<Rightarrow> '''')"

definition document_name :: "document \<Rightarrow> nat list" where
  "document_name doc =
     (if struct_data doc \<noteq> [] then
        (let uri = get_or_empty (struct_data doc) ''uri'';
             doc_name =
               (if uri \<noteq> [] then extract_document_name uri
                else code_points ''Document inconnu'')
         in if doc_name = code_points ''Document inconnu'' \<or> doc_name = [] then
              (let title = get_or_empty (struct_data doc) ''title''
               in if title \<noteq> [] then code_points title
                  else
                    (let name = get_or_empty (struct_data doc) ''name''
                     in if name \<noteq> [] then code_points name else doc_name))
            else doc_name)
      else code_points ''Document inconnu'')"

fun document_mapping ::
  "search_result list \<Rightarrow> (string \<rightharpoonup> nat list) \<Rightarrow> (string \<rightharpoonup> nat list)" where
  "document_mapping [] mapping = mapping"
| "document_mapping (result # rest) mapping =
     (let doc = document result;
          reference_id = doc_id doc
      in document_mapping rest
           (if reference_id \<noteq> [] then mapping(reference_id \<mapsto> document_name doc) else mapping))"

section \<open>The interactive loops of the two scripts\<close>

text \<open>
  One element of the input is the outcome of one
  \<^verbatim>\<open>choice = input(...).strip().upper()\<close>: the stripped and upper-cased line, a
  \<^verbatim>\<open>KeyboardInterrupt\<close>, or another exception of the read.  The list ends where the
  user has typed nothing more yet: the loop is then waiting in \<^verbatim>\<open>input\<close>.  The call of
  the script's execution function on a key returns (whatever it printed), raises an
  \<^verbatim>\<open>Exception\<close>, or is interrupted from the keyboard.
\<close>

datatype read = Entered string | KeyboardInterrupt | ReadError

datatype run = Returned | Raised | Interrupted

datatype action = Farewell | Listed | Executed string | NotFound string | ErrorShown

datatype loop_state = Terminated | AwaitingInput

definition emit :: "action \<Rightarrow> action list \<times> loop_state \<Rightarrow> action list \<times> loop_state" where
  "emit a r = (a # fst r, snd r)"

text \<open>eoden\_simple\_prompt.py: \<^verbatim>\<open>execute_prompt(choice, config)\<close> is followed by \<^verbatim>\<open>break\<close>.\<close>

fun simple_main_loop :: "(string \<Rightarrow> run) \<Rightarrow> string list \<Rightarrow> read list \<Rightarrow> action list \<times> loop_state" where
  "simple_main_loop execute_prompt available_vars [] = ([], AwaitingInput)"
| "simple_main_loop execute_prompt available_vars (KeyboardInterrupt # rest) =
     ([Farewell], Terminated)"
| "simple_main_loop execute_prompt available_vars (ReadError # rest) =
     emit ErrorShown (simple_main_loop execute_prompt available_vars rest)"
| "simple_main_loop execute_prompt available_vars (Entered choice # rest) =
     (if str_lower choice \<in> set [''quit'', ''exit'', ''q''] then ([Farewell], Terminated)
      else if str_lower choice = ''list'' then
        emit Listed (simple_main_loop execute_prompt available_vars rest)
      else if choice \<in> set available_vars then
        (case execute_prompt choice of
           Returned \<Rightarrow> ([Executed choice], Terminated)
         | Raised \<Rightarrow>
             emit (Executed choice)
               (emit ErrorShown (simple_main_loop execute_prompt available_vars rest))
         | Interrupted \<Rightarrow> ([Executed choice, Farewell], Terminated))
      else emit (NotFound choice) (simple_main_loop execute_prompt available_vars rest))"

text \<open>advanced\_research.py: no \<^verbatim>\<open>break\<close> after \<^verbatim>\<open>execute_optimized_prompt(choice, config)\<close>.\<close>

fun advanced_main_loop :: "(string \<Rightarrow> run) \<Rightarrow> string list \<Rightarrow> read list \<Rightarrow> action list \<times> loop_state" where
  "advanced_main_loop execute_optimized available_vars [] = ([], AwaitingInput)"
| "advanced_main_loop execute_optimized available_vars (KeyboardInterrupt # rest) =
     ([Farewell], Terminated)"
| "advanced_main_loop execute_optimized available_vars (ReadError # rest) =
     emit ErrorShown (advanced_main_loop execute_optimized available_vars rest)"
| "advanced_main_loop execute_optimized available_vars (Entered choice # rest) =
     (if str_lower choice \<in> set [''quit'', ''exit'', ''q''] then ([Farewell], Terminated)
      else if str_lower choice = ''list'' then
        emit Listed (advanced_main_loop execute_optimized available_vars rest)
      else if choice \<in> set available_vars then
        (case execute_optimized choice of
           Returned \<Rightarrow>
             emit (Executed choice) (advanced_main_loop execute_optimized available_vars rest)
         | Raised \<Rightarrow>
             emit (Executed choice)
               (emit ErrorShown (advanced_main_loop execute_optimized available_vars rest))
         | Interrupted \<Rightarrow> ([Executed choice, Farewell], Terminated))
      else emit (NotFound choice) (advanced_main_loop execute_optimized available_vars rest))"

section \<open>Example values\<close>

text \<open>
  The two responses of the specification's scoring example, as the client library
  builds them (the two citations of the second are under \<open>citation_metadata\<close>), a
  second response with five results, and two responses of score 0.
\<close>

definition plain_result :: search_result where
  "plain_result = \<lparr>document = \<lparr>doc_id = ''doc-1'', struct_data = []\<rparr>\<rparr>"

definition five_results_response :: search_response where
  "five_results_response =
     \<lparr>results = replicate 5 plain_result,
      summary = Some \<lparr>summary_text = [], summary_with_metadata = None\<rparr>\<rparr>"

definition cited_summary_response :: search_response where
  "cited_summary_response =
     \<lparr>results = [plain_result],
      summary = Some \<lparr>summary_text = ''Revenue grew in 2024.'',
        summary_with_metadata =
          Some \<lparr>citations = None,
                citation_metadata = [\<lparr>sources = []\<rparr>, \<lparr>sources = []\<rparr>]\<rparr>\<rparr>\<rparr>"

definition five_plain_results_response :: search_response where
  "five_plain_results_response = \<lparr>results = replicate 5 plain_result, summary = None\<rparr>"

definition empty_response :: search_response where
  "empty_response = \<lparr>results = [], summary = None\<rparr>"

definition blank_summary_response :: search_response where
  "blank_summary_response =
     \<lparr>results = [], summary = Some \<lparr>summary_text = [], summary_with_metadata = None\<rparr>\<rparr>"

text \<open>A service that fails on the query \<^verbatim>\<open>down\<close> and finds nothing for any other query.\<close>

definition failing_or_empty_client :: client where
  "failing_or_empty_client request =
     (if query request = ''down'' then Inl (ServiceError ''unavailable'')
      else Inr empty_response)"

text \<open>A service that fails on the query \<^verbatim>\<open>down\<close> and answers any other query with
  the cited summary.\<close>

definition failing_or_cited_client :: client where
  "failing_or_cited_client request =
     (if query request = ''down'' then Inl (ServiceError ''unavailable'')
      else Inr cited_summary_response)"

definition example_requests :: "search_request list" where
  "example_requests =
     map (\<lambda>q. create_optimized_request q ''MARCHE'' ''system'' ''serving'')
       [''down'', ''solar market'', ''Reno Energy solar 2024'']"

definition example_config :: config where
  "example_config =
     \<lparr>prompts_config =
        Some [(''MARCHE'',
               [(''prompt'', ''solar market in {country}''),
                (''instructions'', ''Answer in French.'')])],
      prompts_config_final = None,
      template_dictionary = Some [(''country'', JString ''France''), (''year'', JInt 2024)],
      default_settings = Some [(''base_instruction'', ''You are an analyst.'')]\<rparr>"

definition example_environment :: environment where
  "example_environment =
     \<lparr>open_client = Inr failing_or_empty_client, completion_order = [2, 0, 1]\<rparr>"

text \<open>An execution function that always returns.\<close>

definition always_returns :: "string \<Rightarrow> run" where
  "always_returns prompt_key = Returned"

section \<open>Properties of the selection\<close>

lemma score_nonneg: "0 \<le> score response"
  by (simp add: score_def citation_count_def split: option.splits)

lemma select_loop_unbeaten:
  "(\<And>x. Some x \<in> set responses \<Longrightarrow> score x \<le> s) \<Longrightarrow> select_loop responses b s = b"
proof (induction responses b s rule: select_loop.induct)
  case (3 response rest b s)
  have "score response \<le> s" using "3.prems" by simp
  moreover have "select_loop rest b s = b" using "3.IH"(2) "3.prems" calculation by simp
  ultimately show ?case by simp
qed simp_all

lemma select_loop_first_max:
  assumes "\<And>x. Some x \<in> set pre \<Longrightarrow> score x < score a"
    and "\<And>x. Some x \<in> set post \<Longrightarrow> score x \<le> score a"
    and "s < score a"
  shows "select_loop (pre @ Some a # post) b s = Some a"
  using assms
proof (induction pre arbitrary: b s)
  case Nil
  then show ?case by (simp add: select_loop_unbeaten)
next
  case (Cons p pre)
  show ?case
  proof (cases p)
    case None
    then show ?thesis using Cons by simp
  next
    case (Some r)
    have lt: "score r < score a" using Cons.prems(1) Some by simp
    have step: "\<And>b' s'. s' < score a \<Longrightarrow> select_loop (pre @ Some a # post) b' s' = Some a"
      using Cons.IH Cons.prems(1,2) by simp
    show ?thesis using Some lt step Cons.prems(3) by simp
  qed
qed

lemma select_loop_cases:
  "(select_loop responses b s = b \<and> (\<forall>x. Some x \<in> set responses \<longrightarrow> score x \<le> s)) \<or>
   (\<exists>pre a post. responses = pre @ Some a # post \<and> select_loop responses b s = Some a \<and>
      s < score a \<and> (\<forall>x. Some x \<in> set pre \<longrightarrow> score x < score a) \<and>
      (\<forall>x. Some x \<in> set post \<longrightarrow> score x \<le> score a))"
proof (induction responses b s rule: select_loop.induct)
  case (1 b s)
  then show ?case by simp
next
  case (2 rest b s)
  from "2.IH" show ?case
  proof
    assume "select_loop rest b s = b \<and> (\<forall>x. Some x \<in> set rest \<longrightarrow> score x \<le> s)"
    then show ?thesis by simp
  next
    assume "\<exists>pre a post. rest = pre @ Some a # post \<and> select_loop rest b s = Some a \<and>
      s < score a \<and> (\<forall>x. Some x \<in> set pre \<longrightarrow> score x < score a) \<and>
      (\<forall>x. Some x \<in> set post \<longrightarrow> score x \<le> score a)"
    then obtain pre a post where h: "rest = pre @ Some a # post"
      "select_loop rest b s = Some a" "s < score a"
      "\<forall>x. Some x \<in> set pre \<longrightarrow> score x < score a"
      "\<forall>x. Some x \<in> set post \<longrightarrow> score x \<le> score a" by blast
    have "None # rest = (None # pre) @ Some a # post" using h(1) by simp
    moreover have "select_loop (None # rest) b s = Some a" using h(2) by simp
    moreover have "\<forall>x. Some x \<in> set (None # pre) \<longrightarrow> score x < score a" using h(4) by simp
    ultimately show ?thesis using h(3,5) by blast
  qed
next
  case (3 response rest b s)
  show ?case
  proof (cases "score response > s")
    case True
    from "3.IH"(1)[OF True] show ?thesis
    proof
      assume u: "select_loop rest (Some response) (score response) = Some response \<and>
        (\<forall>x. Some x \<in> set rest \<longrightarrow> score x \<le> score response)"
      have "Some response # rest = [] @ Some response # rest" by simp
      moreover have "select_loop (Some response # rest) b s = Some response"
        using True u by simp
      moreover have "\<forall>x. Some x \<in> set ([] :: search_response option list) \<longrightarrow>
        score x < score response" by simp
      ultimately show ?thesis using True u by blast
    next
      assume "\<exists>pre a post. rest = pre @ Some a # post \<and>
        select_loop rest (Some response) (score response) = Some a \<and>
        score response < score a \<and> (\<forall>x. Some x \<in> set pre \<longrightarrow> score x < score a) \<and>
        (\<forall>x. Some x \<in> set post \<longrightarrow> score x \<le> score a)"
      then obtain pre a post where h: "rest = pre @ Some a # post"
        "select_loop rest (Some response) (score response) = Some a" "score response < score a"
        "\<forall>x. Some x \<in> set pre \<longrightarrow> score x < score a"
        "\<forall>x. Some x \<in> set post \<longrightarrow> score x \<le> score a" by blast
      have "Some response # rest = (Some response # pre) @ Some a # post" using h(1) by simp
      moreover have "select_loop (Some response # rest) b s = Some a" using True h(2) by simp
      moreover have "\<forall>x. Some x \<in> set (Some response # pre) \<longrightarrow> score x < score a"
        using h(3,4) by auto
      moreover have "s < score a" using True h(3) by simp
      ultimately show ?thesis using h(5) by blast
    qed
  next
    case False
    from "3.IH"(2)[OF False] show ?thesis
    proof
      assume "select_loop rest b s = b \<and> (\<forall>x. Some x \<in> set rest \<longrightarrow> score x \<le> s)"
      then show ?thesis using False by auto
    next
      assume "\<exists>pre a post. rest = pre @ Some a # post \<and> select_loop rest b s = Some a \<and>
        s < score a \<and> (\<forall>x. Some x \<in> set pre \<longrightarrow> score x < score a) \<and>
        (\<forall>x. Some x \<in> set post \<longrightarrow> score x \<le> score a)"
      then obtain pre a post where h: "rest = pre @ Some a # post"
        "select_loop rest b s = Some a" "s < score a"
        "\<forall>x. Some x \<in> set pre \<longrightarrow> score x < score a"
        "\<forall>x. Some x \<in> set post \<longrightarrow> score x \<le> score a" by blast
      have "Some response # rest = (Some response # pre) @ Some a # post" using h(1) by simp
      moreover have "select_loop (Some response # rest) b s = Some a" using False h(2) by simp
      moreover have "\<forall>x. Some x \<in> set (Some response # pre) \<longrightarrow> score x < score a"
        using False h(3,4) by auto
      ultimately show ?thesis using h(3,5) by blast
    qed
  qed
qed

lemma select_best_result_cases:
  "(select_best_result responses = None \<and> (\<forall>x. Some x \<in> set responses \<longrightarrow> score x = 0)) \<or>
   (\<exists>pre a post. responses = pre @ Some a # post \<and> select_best_result responses = Some a \<and>
      0 < score a \<and> (\<forall>x. Some x \<in> set pre \<longrightarrow> score x < score a) \<and>
      (\<forall>x. Some x \<in> set post \<longrightarrow> score x \<le> score a))"
proof -
  have z: "\<And>x. score x \<le> 0 \<longleftrightarrow> score x = 0"
    using score_nonneg by (simp add: order_class.order_eq_iff)
  show ?thesis
    using select_loop_cases[of responses None 0]
    unfolding select_best_result_def z by blast
qed

lemma select_best_result_all_zero:
  "(\<And>x. Some x \<in> set responses \<Longrightarrow> score x = 0) \<Longrightarrow> select_best_result responses = None"
  unfolding select_best_result_def by (rule select_loop_unbeaten) simp

lemma select_best_result_first_max:
  assumes "\<And>x. Some x \<in> set pre \<Longrightarrow> score x < score a"
    and "\<And>x. Some x \<in> set post \<Longrightarrow> score x \<le> score a"
    and "0 < score a"
  shows "select_best_result (pre @ Some a # post) = Some a"
  unfolding select_best_result_def using assms by (rule select_loop_first_max)

lemma select_best_result_positive:
  assumes "Some x \<in> set responses" "0 < score x"
  shows "\<exists>r. select_best_result responses = Some r \<and> Some r \<in> set responses \<and>
          (\<forall>y. Some y \<in> set responses \<longrightarrow> score y \<le> score r)"
proof -
  from select_best_result_cases[of responses] show ?thesis
  proof
    assume "select_best_result responses = None \<and> (\<forall>x. Some x \<in> set responses \<longrightarrow> score x = 0)"
    then show ?thesis using assms by auto
  next
    assume "\<exists>pre a post. responses = pre @ Some a # post \<and> select_best_result responses = Some a \<and>
      0 < score a \<and> (\<forall>x. Some x \<in> set pre \<longrightarrow> score x < score a) \<and>
      (\<forall>x. Some x \<in> set post \<longrightarrow> score x \<le> score a)"
    then obtain pre a post where h: "responses = pre @ Some a # post"
      "select_best_result responses = Some a"
      "\<forall>x. Some x \<in> set pre \<longrightarrow> score x < score a"
      "\<forall>x. Some x \<in> set post \<longrightarrow> score x \<le> score a" by blast
    have "\<forall>y. Some y \<in> set responses \<longrightarrow> score y \<le> score a"
      using h(1,3,4) by (auto simp: less_imp_le)
    moreover have "Some a \<in> set responses" using h(1) by simp
    ultimately show ?thesis using h(2) by blast
  qed
qed

lemma citation_count_nonneg: "0 \<le> citation_count x"
  by (simp add: citation_count_def split: option.splits)

lemma citation_count_from_client_library:
  "from_client_library x \<Longrightarrow> citation_count x = 0"
  by (simp add: from_client_library_def citation_count_def split: option.splits)

lemma score_formula:
  "score x = 2 * int (length (results x)) +
     (case summary x of None \<Rightarrow> 0 | Some s \<Rightarrow> if summary_text s = [] then 0 else 50) +
     10 * citation_count x"
  by (simp add: score_def has_summary_def split: option.splits)

lemma score_zero_iff:
  "score x = 0 \<longleftrightarrow> results x = [] \<and> \<not> has_summary x \<and> citation_count x = 0"
proof
  assume z: "score x = 0"
  have c: "0 \<le> citation_count x" by (simp add: citation_count_def split: option.splits)
  have l: "0 \<le> int (length (results x))" by simp
  have h: "\<not> has_summary x" using z c l by (cases "has_summary x") (simp_all add: score_def)
  have e: "int (length (results x)) * 2 + citation_count x * 10 = 0"
    using z h by (simp add: score_def)
  have "int (length (results x)) = 0" using e c l by linarith
  then have "results x = []" by simp
  moreover have "citation_count x = 0" using e c l by linarith
  ultimately show "results x = [] \<and> \<not> has_summary x \<and> citation_count x = 0"
    using h by simp
next
  assume "results x = [] \<and> \<not> has_summary x \<and> citation_count x = 0"
  then show "score x = 0" by (simp add: score_def)
qed

lemma example_scores:
  "score five_results_response = 10" "score cited_summary_response = 52"
  "score five_plain_results_response = 10" "score empty_response = 0"
  "score blank_summary_response = 0"
  by (simp_all add: score_def has_summary_def citation_count_def five_results_response_def
      cited_summary_response_def five_plain_results_response_def empty_response_def
      blank_summary_response_def)

lemma example_distinct:
  "five_results_response \<noteq> five_plain_results_response"
  "empty_response \<noteq> blank_summary_response"
  "cited_summary_response \<noteq> empty_response"
  by (simp_all add: five_results_response_def five_plain_results_response_def
      empty_response_def blank_summary_response_def cited_summary_response_def)

lemma example_from_client_library:
  "from_client_library five_results_response" "from_client_library cited_summary_response"
  "from_client_library five_plain_results_response" "from_client_library empty_response"
  "from_client_library blank_summary_response"
  by (simp_all add: from_client_library_def five_results_response_def
      cited_summary_response_def five_plain_results_response_def empty_response_def
      blank_summary_response_def)

lemma select_loop_absent: "select_loop (replicate n None) b s = b"
  by (induction n) simp_all

lemma select_loop_skip_absent: "select_loop (replicate n None @ rest) b s = select_loop rest b s"
  by (induction n) simp_all

lemma create_optimized_queries_cases:
  "(str_split base_query = [] \<and> create_optimized_queries base_query prompt_type = Inl IndexError) \<or>
   (str_split base_query \<noteq> [] \<and>
    (\<exists>q1 q2 q3. create_optimized_queries base_query prompt_type = Inr [q1, q2, q3]))"
  by (cases "str_split base_query") (simp_all add: create_optimized_queries_def Let_def)

lemma execute_single_search_present:
  "snd (execute_single_search client request) = Some x \<longleftrightarrow> client request = Inr x"
  by (simp add: execute_single_search_def split: sum.splits)

lemma execute_single_search_warnings:
  "w \<in> set (fst (execute_single_search client request)) \<Longrightarrow> \<exists>e. w = SearchWarning e"
  by (simp add: execute_single_search_def split: sum.splits)

lemma as_completed_member:
  assumes "\<forall>i\<in>set order. i < length futures" "y \<in> set (as_completed order futures)"
  shows "y \<in> set futures"
  using assms by (auto simp: as_completed_def)

lemma collected_present:
  assumes "\<forall>i\<in>set order. i < length requests"
    and "Some x \<in> set (map snd (as_completed order (map (execute_single_search client) requests)))"
  shows "\<exists>request \<in> set requests. client request = Inr x"
proof -
  from assms(2) obtain y where y: "y \<in> set (as_completed order (map (execute_single_search client) requests))"
    "snd y = Some x" by auto
  have "y \<in> set (map (execute_single_search client) requests)"
    using as_completed_member[OF _ y(1)] assms(1) by simp
  then obtain request where "request \<in> set requests" "y = execute_single_search client request"
    by auto
  then show ?thesis using y(2) execute_single_search_present by blast
qed

lemma collected_warnings:
  assumes "\<forall>i\<in>set order. i < length requests"
    and "w \<in> set (concat (map fst (as_completed order (map (execute_single_search client) requests))))"
  shows "\<exists>e. w = SearchWarning e"
proof -
  from assms(2) obtain y where y: "y \<in> set (as_completed order (map (execute_single_search client) requests))"
    "w \<in> set (fst y)" by auto
  have "y \<in> set (map (execute_single_search client) requests)"
    using as_completed_member[OF _ y(1)] assms(1) by simp
  then obtain request where "y = execute_single_search client request" by auto
  then show ?thesis using y(2) execute_single_search_warnings by blast
qed

lemma search_and_select_no_result:
  assumes "str_split base_query \<noteq> []" and "\<forall>i\<in>set order. i < 3"
    and "\<forall>request response. client request = Inr response \<longrightarrow> score response = 0"
  shows "\<exists>warnings. search_and_select client order base_query prompt_key system_prompt
            = (warnings @ [NoResultObtained], None) \<and>
          (\<forall>w\<in>set warnings. \<exists>e. w = SearchWarning e)"
proof -
  from create_optimized_queries_cases[of base_query prompt_key] assms(1)
  obtain q1 q2 q3 where q: "create_optimized_queries base_query prompt_key = Inr [q1, q2, q3]"
    by auto
  define serving where "serving = ''projects/'' @ PROJECT_ID @ ''/locations/'' @ LOCATION @
     ''/dataStores/'' @ DATA_STORE_ID @ ''/servingConfigs/default_config''"
  define requests where
    "requests = map (\<lambda>q. create_optimized_request q prompt_key system_prompt serving) [q1, q2, q3]"
  define completed where
    "completed = as_completed order (map (execute_single_search client) requests)"
  have "length requests = 3" by (simp add: requests_def)
  then have len: "\<forall>i\<in>set order. i < length requests" using assms(2) by simp
  have zero: "\<And>x. Some x \<in> set (map snd completed) \<Longrightarrow> score x = 0"
    using collected_present[OF len] assms(3) unfolding completed_def by blast
  have none: "select_best_result (map snd completed) = None"
    by (rule select_best_result_all_zero) (rule zero)
  have w: "\<forall>w\<in>set (concat (map fst completed)). \<exists>e. w = SearchWarning e"
    using collected_warnings[OF len] unfolding completed_def by blast
  have "search_and_select client order base_query prompt_key system_prompt
      = (concat (map fst completed) @ [NoResultObtained], None)"
    using none q
    by (simp add: search_and_select_def Let_def serving_def requests_def completed_def)
  then show ?thesis using w by blast
qed

lemma execute_optimized_prompt_no_result:
  assumes "find_prompt_data prompt_key config = Some prompt_data"
    and "map_of prompt_data ''prompt'' = Some prompt"
    and "open_client env = Inr client"
    and "str_split (replace_template_variables prompt (Some config)) \<noteq> []"
    and "\<forall>i\<in>set (completion_order env). i < 3"
    and "\<forall>request response. client request = Inr response \<longrightarrow> score response = 0"
  shows "\<exists>printed. execute_optimized_prompt env prompt_key config = Inr (printed, None) \<and>
           last printed = NoResultObtained \<and> (\<forall>r. Displayed r \<notin> set printed)"
proof -
  define system_prompt where "system_prompt = build_system_prompt prompt_key config
     (replace_template_variables
        (case map_of prompt_data ''instructions'' of Some i \<Rightarrow> i | None \<Rightarrow> '''') (Some config))"
  from search_and_select_no_result[OF assms(4,5,6), of prompt_key system_prompt]
  obtain warnings where w:
    "search_and_select client (completion_order env)
       (replace_template_variables prompt (Some config)) prompt_key system_prompt
       = (warnings @ [NoResultObtained], None)"
    "\<forall>w\<in>set warnings. \<exists>e. w = SearchWarning e" by blast
  have "execute_optimized_prompt env prompt_key config
      = Inr (Heading prompt_key # warnings @ [NoResultObtained], None)"
    using assms(1,2,3) w(1)
    by (simp add: execute_optimized_prompt_def Let_def system_prompt_def)
  moreover have "\<forall>r. Displayed r \<notin> set (Heading prompt_key # warnings @ [NoResultObtained])"
    using w(2) by auto
  moreover have "last (Heading prompt_key # warnings @ [NoResultObtained]) = NoResultObtained"
    by simp
  ultimately show ?thesis by blast
qed

section \<open>The claims about the selection\<close>

text \<open>
  C1, as stated, fails where no present response scores above 0: the loop starts from
  \<^verbatim>\<open>best_score = 0\<close> and replaces on \<^verbatim>\<open>score > best_score\<close> only, so a sole
  response of score 0 attains the maximal score and is not returned.
\<close>

theorem select_best_result_maximal_counterexample:
  "Some empty_response \<in> set [Some empty_response] \<and> score empty_response = 0 \<and>
   select_best_result [Some empty_response] = None"
  by (simp add: select_best_result_def example_scores)

text \<open>
  C1 (amended).  The score of a present response is 2 times the number of its result
  documents, plus 50 if its summary text is non-empty, plus 10 times its citation
  count; the citation count is never negative, and it is 0 without a summary and
  without metadata.  Whenever some present response scores above 0,
  \<^verbatim>\<open>select_best_result\<close> returns a present response whose score is maximal among the
  present ones.  In particular, of a response with five results, an empty summary text
  and no citation counted (score 10) and a response with one result and a summary text
  (score 52 or more), it returns the second, in either order.

  What the citation count of a response with summary metadata is, is left out here: the
  code reads it from an attribute \<^verbatim>\<open>citations\<close> of the metadata, which the responses
  of the client library do not have (\<open>citation_count_from_client_library\<close>).
\<close>

theorem select_best_result_maximal:
  "(Some x \<in> set responses \<and> 0 < score x \<longrightarrow>
      (\<exists>r. select_best_result responses = Some r \<and> Some r \<in> set responses \<and>
           (\<forall>y. Some y \<in> set responses \<longrightarrow> score y \<le> score r))) \<and>
   score x = 2 * int (length (results x)) +
     (case summary x of None \<Rightarrow> 0 | Some s \<Rightarrow> if summary_text s = [] then 0 else 50) +
     10 * citation_count x \<and>
   0 \<le> citation_count x \<and>
   (summary x = None \<longrightarrow> citation_count x = 0) \<and>
   (summary x = Some s \<and> summary_with_metadata s = None \<longrightarrow> citation_count x = 0) \<and>
   (length (results a) = 5 \<and> summary a = Some sa \<and> summary_text sa = [] \<and>
    citation_count a = 0 \<and>
    length (results b) = 1 \<and> summary b = Some sb \<and> summary_text sb \<noteq> [] \<longrightarrow>
      score a = 10 \<and> 52 \<le> score b \<and>
      select_best_result [Some a, Some b] = Some b \<and>
      select_best_result [Some b, Some a] = Some b)"
proof -
  have example: "score a = 10 \<and> 52 \<le> score b \<and>
      select_best_result [Some a, Some b] = Some b \<and>
      select_best_result [Some b, Some a] = Some b"
    if "length (results a) = 5" "summary a = Some sa" "summary_text sa = []"
      "citation_count a = 0" "length (results b) = 1" "summary b = Some sb"
      "summary_text sb \<noteq> []"
  proof -
    have a: "score a = 10" using that(1-4) by (simp add: score_def has_summary_def)
    have "score b = 52 + 10 * citation_count b"
      using that(5-7) by (simp add: score_def has_summary_def)
    then have b: "52 \<le> score b" using citation_count_nonneg[of b] by simp
    show ?thesis using a b by (simp add: select_best_result_def)
  qed
  have none: "summary x = None \<longrightarrow> citation_count x = 0"
    by (simp add: citation_count_def)
  have nometa: "summary x = Some s \<and> summary_with_metadata s = None \<longrightarrow> citation_count x = 0"
    by (simp add: citation_count_def)
  show ?thesis
    using select_best_result_positive[of x responses] score_formula[of x]
      citation_count_nonneg[of x] none nometa example
    by blast
qed

text \<open>
  The specification's example, as the client library delivers it: five results and an
  empty summary text (score 10) against one result and a summary with two citations.
\<close>

theorem select_best_result_maximal_witness:
  "Some cited_summary_response \<in> set [Some five_results_response, Some cited_summary_response] \<and>
   0 < score cited_summary_response \<and>
   score five_results_response = 10 \<and> 52 \<le> score cited_summary_response \<and>
   select_best_result [Some five_results_response, Some cited_summary_response]
     = Some cited_summary_response \<and>
   select_best_result [Some cited_summary_response, Some five_results_response]
     = Some cited_summary_response"
proof -
  have a: "length (results five_results_response) = 5 \<and>
      summary five_results_response = Some \<lparr>summary_text = [], summary_with_metadata = None\<rparr> \<and>
      summary_text \<lparr>summary_text = [], summary_with_metadata = None\<rparr> = [] \<and>
      citation_count five_results_response = 0"
    by (simp add: five_results_response_def citation_count_def)
  have b: "length (results cited_summary_response) = 1 \<and>
      summary cited_summary_response =
        Some \<lparr>summary_text = ''Revenue grew in 2024.'',
          summary_with_metadata =
            Some \<lparr>citations = None,
                  citation_metadata = [\<lparr>sources = []\<rparr>, \<lparr>sources = []\<rparr>]\<rparr>\<rparr> \<and>
      summary_text \<lparr>summary_text = ''Revenue grew in 2024.'',
          summary_with_metadata =
            Some \<lparr>citations = None,
                  citation_metadata = [\<lparr>sources = []\<rparr>, \<lparr>sources = []\<rparr>]\<rparr>\<rparr> \<noteq> []"
    by (simp add: cited_summary_response_def)
  from select_best_result_maximal[of cited_summary_response
      "[Some five_results_response, Some cited_summary_response]" _
      five_results_response "\<lparr>summary_text = [], summary_with_metadata = None\<rparr>"
      cited_summary_response
      "\<lparr>summary_text = ''Revenue grew in 2024.'',
          summary_with_metadata =
            Some \<lparr>citations = None,
                  citation_metadata = [\<lparr>sources = []\<rparr>, \<lparr>sources = []\<rparr>]\<rparr>\<rparr>"] a b
  have "score five_results_response = 10 \<and> 52 \<le> score cited_summary_response \<and>
      select_best_result [Some five_results_response, Some cited_summary_response]
        = Some cited_summary_response \<and>
      select_best_result [Some cited_summary_response, Some five_results_response]
        = Some cited_summary_response"
    by blast
  then show ?thesis by simp
qed

text \<open>
  C3, as stated, fails for a singleton whose sole response scores 0 (no result, no
  summary text, no citation): \<^verbatim>\<open>select_best_result\<close> returns \<^verbatim>\<open>None\<close>.
\<close>

theorem select_best_result_single_counterexample:
  "select_best_result [Some blank_summary_response] \<noteq> Some blank_summary_response"
  by (simp add: select_best_result_def example_scores)

text \<open>
  C3 (amended).  \<^verbatim>\<open>select_best_result\<close> returns none for a sequence whose entries are
  all absent and for the empty sequence.  For a sequence with exactly one present
  response (alone, or among absent entries) it returns that response if its score is
  above 0, and none otherwise.
\<close>

theorem select_best_result_absent_or_single:
  "select_best_result (replicate n None) = None \<and>
   select_best_result [] = None \<and>
   select_best_result [Some r] = (if 0 < score r then Some r else None) \<and>
   select_best_result (replicate m None @ [Some r] @ replicate n None)
     = (if 0 < score r then Some r else None)"
  by (simp add: select_best_result_def select_loop_absent select_loop_skip_absent)

text \<open>
  C4, as stated, fails for two present responses that both score 0: their scores are
  identical, and the first one met is not returned.
\<close>

theorem select_best_result_ties_counterexample:
  "score empty_response = score blank_summary_response \<and>
   select_best_result [Some empty_response, Some blank_summary_response] \<noteq> Some empty_response"
  by (simp add: select_best_result_def example_scores)

text \<open>
  C4 (amended).  Among the present responses whose identical score is the maximal one
  and above 0, \<^verbatim>\<open>select_best_result\<close> returns the one met first: a response is
  returned when every response before it scores strictly less and no response after it
  scores more.  In the loop, a response whose score merely equals the current
  \<^verbatim>\<open>best_score\<close> never replaces \<^verbatim>\<open>best_response\<close>.
\<close>

theorem select_best_result_first_of_ties:
  "(0 < score a \<and> (\<forall>x. Some x \<in> set pre \<longrightarrow> score x < score a) \<and>
      (\<forall>x. Some x \<in> set post \<longrightarrow> score x \<le> score a) \<longrightarrow>
      select_best_result (pre @ Some a # post) = Some a) \<and>
   select_loop (Some b # rest) best_response (score b) = select_loop rest best_response (score b)"
  using select_best_result_first_max[of pre a post] by simp

text \<open>
  Two different responses of score 10 (five results each, one with an empty summary,
  one without a summary): whichever comes first is returned.
\<close>

theorem select_best_result_first_of_ties_witness:
  "0 < score five_results_response \<and>
   score five_plain_results_response = score five_results_response \<and>
   five_results_response \<noteq> five_plain_results_response \<and>
   select_best_result ([] @ Some five_results_response # [Some five_plain_results_response])
     = Some five_results_response \<and>
   select_best_result ([] @ Some five_plain_results_response # [Some five_results_response])
     = Some five_plain_results_response"
  using select_best_result_first_of_ties[of five_results_response "[]" "[Some five_plain_results_response]"]
    select_best_result_first_of_ties[of five_plain_results_response "[]" "[Some five_results_response]"]
  by (simp add: example_scores example_distinct)

text \<open>
  C2.  A response of score 0 has no result document, no summary text and no citation,
  and \<^verbatim>\<open>select_best_result\<close> never returns it: whatever it returns scores above 0, and
  it does return a response as soon as some present response has a result document.
  When every present response scores 0 (every request failed, or found nothing) it
  returns none, and \<^verbatim>\<open>execute_optimized_prompt\<close> then prints the "no result obtained"
  line last, displays no response and returns \<^verbatim>\<open>None\<close>.
\<close>

theorem zero_score_never_selected:
  "(select_best_result responses = Some r \<longrightarrow> 0 < score r \<and> Some r \<in> set responses) \<and>
   (score z = 0 \<longleftrightarrow> results z = [] \<and> \<not> has_summary z \<and> citation_count z = 0) \<and>
   (Some w \<in> set responses \<and> results w \<noteq> [] \<longrightarrow>
      (\<exists>b. select_best_result responses = Some b \<and> 0 < score b)) \<and>
   ((\<forall>x. Some x \<in> set responses \<longrightarrow> score x = 0) \<longrightarrow> select_best_result responses = None) \<and>
   (find_prompt_data prompt_key config = Some prompt_data \<and>
    map_of prompt_data ''prompt'' = Some prompt \<and>
    open_client env = Inr client \<and>
    str_split (replace_template_variables prompt (Some config)) \<noteq> [] \<and>
    (\<forall>i\<in>set (completion_order env). i < 3) \<and>
    (\<forall>request response. client request = Inr response \<longrightarrow> score response = 0) \<longrightarrow>
      (\<exists>printed. execute_optimized_prompt env prompt_key config = Inr (printed, None) \<and>
         last printed = NoResultObtained \<and> (\<forall>d. Displayed d \<notin> set printed)))"
proof -
  have a: "select_best_result responses = Some r \<longrightarrow> 0 < score r \<and> Some r \<in> set responses"
    using select_best_result_cases[of responses] by auto
  have "0 < score w" if "results w \<noteq> []"
    using that score_zero_iff[of w] score_nonneg[of w] by (simp add: order_class.order.strict_iff_order)
  then have c: "Some w \<in> set responses \<and> results w \<noteq> [] \<longrightarrow>
      (\<exists>b. select_best_result responses = Some b \<and> 0 < score b)"
    using select_best_result_positive[of w responses] select_best_result_cases[of responses]
    by auto
  have d: "(\<forall>x. Some x \<in> set responses \<longrightarrow> score x = 0) \<longrightarrow> select_best_result responses = None"
    using select_best_result_all_zero[of responses] by blast
  show ?thesis
    using a c d score_zero_iff[of z]
      execute_optimized_prompt_no_result[of prompt_key config prompt_data prompt env client]
    by blast
qed

lemma example_run:
  "execute_optimized_prompt example_environment ''MARCHE'' example_config
     = Inr ([Heading ''MARCHE'', NoResultObtained], None)"
  by code_simp

text \<open>
  A response without results loses against one with five results; two responses of
  score 0 give none; a run in which the service finds nothing reports no result.
\<close>

theorem zero_score_never_selected_witness:
  "select_best_result [Some empty_response, Some five_results_response]
     = Some five_results_response \<and>
   select_best_result [Some empty_response, None, Some blank_summary_response] = None \<and>
   execute_optimized_prompt example_environment ''MARCHE'' example_config
     = Inr ([Heading ''MARCHE'', NoResultObtained], None)"
proof -
  have "select_best_result [Some empty_response, None, Some blank_summary_response] = None"
    using zero_score_never_selected[of "[Some empty_response, None, Some blank_summary_response]"]
    by (auto simp: example_scores)
  moreover have "select_best_result [Some empty_response, Some five_results_response]
     = Some five_results_response"
    by (simp add: select_best_result_def example_scores)
  ultimately show ?thesis using example_run by simp
qed

text \<open>
  C9, as stated, fails where the sibling requests succeed with responses of score 0:
  the first request raises, the two others return a response without results or
  summary, and nothing is selected.
\<close>

theorem failure_isolated_counterexample:
  "map snd (as_completed [1, 2, 0]
       (map (execute_single_search failing_or_empty_client) example_requests))
     = [Some empty_response, Some empty_response, None] \<and>
   select_best_result (map snd (as_completed [1, 2, 0]
       (map (execute_single_search failing_or_empty_client) example_requests))) = None"
  by (simp add: as_completed_def example_requests_def execute_single_search_def
      failing_or_empty_client_def create_optimized_request_def select_best_result_def
      example_scores)

text \<open>
  C9 (amended).  \<^verbatim>\<open>execute_single_search\<close> catches the exception of a request, prints
  a warning and gives \<^verbatim>\<open>None\<close> for that request only; a request that succeeds gives
  its response unchanged.  Whatever the other requests did, if a collected sibling
  request succeeded with a response of score above 0, \<^verbatim>\<open>select_best_result\<close> returns a
  response, and that response is the answer of the service to one of the requests.
\<close>

theorem failure_isolated:
  "(client request = Inl e \<longrightarrow> execute_single_search client request = ([SearchWarning e], None)) \<and>
   (client request = Inr response \<longrightarrow> execute_single_search client request = ([], Some response)) \<and>
   (j \<in> set order \<and> (\<forall>i\<in>set order. i < length requests) \<and>
    client (requests ! j) = Inr sibling \<and> 0 < score sibling \<longrightarrow>
      (\<exists>best. select_best_result
           (map snd (as_completed order (map (execute_single_search client) requests)))
           = Some best \<and>
         (\<exists>request\<in>set requests. client request = Inr best)))"
proof -
  have "\<exists>best. select_best_result
           (map snd (as_completed order (map (execute_single_search client) requests)))
           = Some best \<and> (\<exists>request\<in>set requests. client request = Inr best)"
    if j: "j \<in> set order" and len: "\<forall>i\<in>set order. i < length requests"
      and ok: "client (requests ! j) = Inr sibling" and pos: "0 < score sibling"
  proof -
    let ?responses = "map snd (as_completed order (map (execute_single_search client) requests))"
    have "j < length requests" using j len by simp
    then have "snd (map (execute_single_search client) requests ! j) = Some sibling"
      using ok by (simp add: execute_single_search_present)
    then have "Some sibling \<in> set ?responses"
      using j by (force simp: as_completed_def)
    from select_best_result_positive[OF this pos]
    obtain best where b: "select_best_result ?responses = Some best" "Some best \<in> set ?responses"
      by blast
    from collected_present[OF len b(2)] b(1) show ?thesis by blast
  qed
  then show ?thesis by (auto simp: execute_single_search_def)
qed

text \<open>
  The first of three requests fails, the others answer with the cited summary, and the
  futures complete in the order 1, 2, 0.
\<close>

theorem failure_isolated_witness:
  "failing_or_cited_client (example_requests ! 0) = Inl (ServiceError ''unavailable'') \<and>
   execute_single_search failing_or_cited_client (example_requests ! 0)
     = ([SearchWarning (ServiceError ''unavailable'')], None) \<and>
   failing_or_cited_client (example_requests ! 1) = Inr cited_summary_response \<and>
   0 < score cited_summary_response \<and>
   select_best_result (map snd (as_completed [1, 2, 0]
       (map (execute_single_search failing_or_cited_client) example_requests)))
     = Some cited_summary_response"
proof -
  have f: "failing_or_cited_client (example_requests ! 0) = Inl (ServiceError ''unavailable'')"
    and s: "failing_or_cited_client (example_requests ! 1) = Inr cited_summary_response"
    by (simp_all add: failing_or_cited_client_def example_requests_def create_optimized_request_def)
  have l: "\<forall>i\<in>set [1, 2, 0::nat]. i < length example_requests"
    by (simp add: example_requests_def)
  have all: "\<And>request best. failing_or_cited_client request = Inr best \<Longrightarrow> best = cited_summary_response"
    by (simp add: failing_or_cited_client_def split: if_splits)
  from failure_isolated[of failing_or_cited_client "example_requests ! 0"
      "ServiceError ''unavailable''" cited_summary_response 1 "[1, 2, 0]" example_requests
      cited_summary_response] f s l all
  show ?thesis by (auto simp: example_scores)
qed

section \<open>Properties of the string functions\<close>

lemma str_in_sublist: "str_in needle haystack \<longleftrightarrow> sublist needle haystack"
  by (induction haystack) (simp_all add: sublist_Cons_right)

lemma replace_nonempty_absent:
  "\<not> sublist old s \<Longrightarrow> replace_nonempty old new s = s"
proof (induction s)
  case Nil
  then show ?case by simp
next
  case (Cons c cs)
  have "\<not> prefix old (c # cs)" using Cons.prems by auto
  moreover have "\<not> sublist old cs" using Cons.prems by (simp add: sublist_Cons_right)
  ultimately show ?case using Cons.IH by simp
qed

lemma replace_nonempty_first:
  assumes "old \<noteq> []" and "\<not> sublist old (a @ butlast old)"
  shows "replace_nonempty old new (a @ old @ b) = a @ new @ replace_nonempty old new b"
  using assms(2)
proof (induction a)
  case Nil
  obtain c cs where o: "old = c # cs" using assms(1) by (cases old) auto
  have "replace_nonempty old new (old @ b) = new @ replace_nonempty old new (drop (length old) (old @ b))"
    unfolding o by simp
  then show ?case by simp
next
  case (Cons x a)
  have np: "\<not> prefix old (x # a @ old @ b)"
  proof
    assume p: "prefix old (x # a @ old @ b)"
    have l: "length old \<le> length ((x # a) @ butlast old)" by simp
    have "x # a @ old @ b = ((x # a) @ butlast old) @ (last old # b)"
      using assms(1) append_butlast_last_id[of old] by (metis append.assoc append_Cons append_Nil)
    then have q: "prefix ((x # a) @ butlast old) (x # a @ old @ b)"
      using prefixI by blast
    have "prefix old ((x # a) @ butlast old)"
      by (rule prefix_length_prefix[OF p q l])
    then show False using Cons.prems by auto
  qed
  have "\<not> sublist old (a @ butlast old)"
    using Cons.prems by (simp add: sublist_Cons_right)
  then show ?case using Cons.IH np by simp
qed

lemma str_replace_absent: "\<not> sublist old s \<Longrightarrow> str_replace s old new = s"
  by (cases "old = []") (simp_all add: str_replace_def replace_nonempty_absent)

lemma str_replace_first:
  "old \<noteq> [] \<Longrightarrow> \<not> sublist old (a @ butlast old) \<Longrightarrow>
   str_replace (a @ old @ b) old new = a @ new @ str_replace b old new"
  by (simp add: str_replace_def replace_nonempty_first)

section \<open>The claim about the template variables\<close>

lemma replace_placeholder_absent:
  "\<not> sublist (''{'' @ key @ ''}'') text \<Longrightarrow> replace_placeholder text (key, value) = text"
  by (simp add: replace_placeholder_def str_replace_absent)

lemma replace_placeholder_first:
  assumes "\<not> sublist (''{'' @ key @ ''}'') (a @ ''{'' @ key)"
  shows "replace_placeholder (a @ ''{'' @ key @ ''}'' @ b) (key, value)
           = a @ py_str value @ replace_placeholder b (key, value)"
proof -
  have "butlast (''{'' @ key @ ''}'') = ''{'' @ key"
    by (simp add: butlast_append)
  then have "\<not> sublist (''{'' @ key @ ''}'') (a @ butlast (''{'' @ key @ ''}''))"
    using assms by simp
  from str_replace_first[OF _ this, of b "py_str value"]
  show ?thesis by (simp add: replace_placeholder_def)
qed

lemma foldl_replace_placeholder_absent:
  "\<forall>(k, v)\<in>set template_dict. \<not> sublist (''{'' @ k @ ''}'') text \<Longrightarrow>
   foldl replace_placeholder text template_dict = text"
proof (induction template_dict)
  case Nil
  then show ?case by simp
next
  case (Cons kv template_dict)
  obtain k v where kv: "kv = (k, v)" by (cases kv)
  have "replace_placeholder text kv = text"
    using Cons.prems kv replace_placeholder_absent by simp
  then show ?case using Cons by simp
qed

text \<open>
  C7.  Without a configuration, or without a \<^verbatim>\<open>template_dictionary\<close> in it, the text
  is returned unchanged.  Otherwise the keys are processed in the order of the
  dictionary, each on the result of the one before.  Processing a key replaces every
  occurrence of \<^verbatim>\<open>"{" + key + "}"\<close> by \<^verbatim>\<open>str(value)\<close>: the text up to the first
  occurrence is kept, the occurrence becomes the value, and the rest of the text is
  processed in the same way; a text without an occurrence is unchanged.  So a text in
  which no placeholder of the dictionary occurs, whatever other placeholders it holds,
  is returned as it is; the function is total and raises nothing.
\<close>

theorem replace_template_variables_replaces_all:
  "replace_template_variables text None = text \<and>
   (template_dictionary cfg = None \<longrightarrow> replace_template_variables text (Some cfg) = text) \<and>
   replace_template_variables text (Some (cfg\<lparr>template_dictionary := Some []\<rparr>)) = text \<and>
   replace_template_variables text
       (Some (cfg\<lparr>template_dictionary := Some ((key, value) # rest)\<rparr>))
     = replace_template_variables (replace_placeholder text (key, value))
         (Some (cfg\<lparr>template_dictionary := Some rest\<rparr>)) \<and>
   (\<not> sublist (''{'' @ key @ ''}'') (a @ ''{'' @ key) \<longrightarrow>
      replace_placeholder (a @ ''{'' @ key @ ''}'' @ b) (key, value)
        = a @ py_str value @ replace_placeholder b (key, value)) \<and>
   (\<not> sublist (''{'' @ key @ ''}'') text \<longrightarrow> replace_placeholder text (key, value) = text) \<and>
   (template_dictionary cfg = Some template_dict \<and>
    (\<forall>(k, v)\<in>set template_dict. \<not> sublist (''{'' @ k @ ''}'') text) \<longrightarrow>
      replace_template_variables text (Some cfg) = text)"
proof -
  have "replace_template_variables text (Some cfg) = text"
    if "template_dictionary cfg = Some template_dict"
      "\<forall>(k, v)\<in>set template_dict. \<not> sublist (''{'' @ k @ ''}'') text"
    using that foldl_replace_placeholder_absent[of template_dict "text"]
    by (simp add: replace_template_variables_def)
  then show ?thesis
    using replace_placeholder_first[of key a b "value"] replace_placeholder_absent[of key "text" "value"]
    by (simp add: replace_template_variables_def)
qed

text \<open>
  With \<^verbatim>\<open>{"country": "France", "year": 2024}\<close>: both keys are replaced at every
  occurrence, and \<^verbatim>\<open>{x}\<close> and \<^verbatim>\<open>{Country}\<close> stay.
\<close>

theorem replace_template_variables_replaces_all_witness:
  "template_dictionary example_config = Some [(''country'', JString ''France''), (''year'', JInt 2024)] \<and>
   replace_template_variables ''{year}: {country} and {x} in {country}'' (Some example_config)
     = ''2024: France and {x} in France'' \<and>
   replace_template_variables ''{x} {Country}'' (Some example_config) = ''{x} {Country}'' \<and>
   replace_placeholder ('': '' @ ''{'' @ ''country'' @ ''}'' @ '' and {country}'')
       (''country'', JString ''France'')
     = '': '' @ ''France'' @ '' and France'' \<and>
   replace_template_variables ''{year}'' None = ''{year}''"
proof -
  have d: "template_dictionary example_config
      = Some [(''country'', JString ''France''), (''year'', JInt 2024)]"
    by (simp add: example_config_def)
  have n: "\<forall>(k, v)\<in>set [(''country'', JString ''France''), (''year'', JInt 2024)].
      \<not> sublist (''{'' @ k @ ''}'') ''{x} {Country}''"
    by (simp add: str_in_sublist[symmetric])
  have f: "\<not> sublist (''{'' @ ''country'' @ ''}'') ('': '' @ ''{'' @ ''country'')"
    by (simp add: str_in_sublist[symmetric])
  have r: "replace_placeholder '' and {country}'' (''country'', JString ''France'') = '' and France''"
    by (simp add: replace_placeholder_def str_replace_def)
  have e: "replace_template_variables ''{year}: {country} and {x} in {country}'' (Some example_config)
     = ''2024: France and {x} in France''"
    by code_simp
  from replace_template_variables_replaces_all[of "''{x} {Country}''" example_config
      "''country''" "JString ''France''" "[]" "'': ''" "'' and {country}''"
      "[(''country'', JString ''France''), (''year'', JInt 2024)]"]
    replace_template_variables_replaces_all[of "''{year}''"]
    d n f r e
  show ?thesis by simp
qed

section \<open>The claims about the query variants\<close>

lemma str_lower_sublist: "sublist term q \<Longrightarrow> str_in (str_lower term) (str_lower q)"
  by (simp add: str_in_sublist str_lower_def map_mono_sublist)

lemma enrich_step_is_replace: "enrich_step q (term, synonyms) = str_replace q term synonyms"
proof (cases "str_in (str_lower term) (str_lower q)")
  case True
  then show ?thesis by (simp add: enrich_step_def)
next
  case False
  then have "\<not> sublist term q" using str_lower_sublist by blast
  then show ?thesis using False by (simp add: enrich_step_def str_replace_absent)
qed

lemma enrich_step_absent:
  "\<not> str_in (str_lower term) (str_lower q) \<Longrightarrow> enrich_step q (term, synonyms) = q"
  by (simp add: enrich_step_def)

lemma enrich_step_first:
  assumes "term \<noteq> []"
    and "\<not> str_in (str_lower term) (str_lower (a @ butlast term))"
  shows "enrich_step (a @ term @ b) (term, synonyms) = a @ synonyms @ enrich_step b (term, synonyms)"
proof -
  have "\<not> sublist term (a @ butlast term)"
    using assms(2) str_lower_sublist by blast
  then show ?thesis
    using assms(1) by (simp add: enrich_step_is_replace str_replace_first)
qed

lemma create_optimized_queries_first:
  assumes "str_split base_query \<noteq> []"
  shows "\<exists>q2 q3. create_optimized_queries base_query prompt_type =
     Inr [create_enhanced_query_with_context
            (case map_of synonym_mappings prompt_type of
               Some pairs \<Rightarrow> foldl enrich_step base_query pairs
             | None \<Rightarrow> base_query) prompt_type, q2, q3]"
  using assms
  by (cases "str_split base_query")
    (simp_all add: create_optimized_queries_def Let_def enrich_with_synonyms_def)

lemma create_optimized_queries_three:
  assumes "str_split base_query = first_word # more_words"
  shows "\<exists>q1 q2 q3. create_optimized_queries base_query prompt_type = Inr [q1, q2, q3] \<and>
     (map_of technical_terms prompt_type = None \<longrightarrow>
        q2 = base_query @ '' Reno Energy 2024'') \<and>
     (map_of short_terms prompt_type = None \<longrightarrow>
        q3 = ''Reno Energy '' @ first_word @ '' 2024'')"
  using assms by (simp add: create_optimized_queries_def Let_def)

text \<open>
  C5, as stated, fails: every occurrence of the term is replaced, not the first one
  only.  In \<^verbatim>\<open>profil, profil\<close> both occurrences become the synonyms; with the first
  one alone replaced, the query would end in \<^verbatim>\<open>, profil\<close>.
\<close>

theorem enrich_first_occurrence_counterexample:
  "enrich_with_synonyms ''profil, profil'' ''PERSONNE_CLE''
     = ''profil exp'' @ e_acute @ ''rience parcours background, profil exp'' @ e_acute @
       ''rience parcours background'' \<and>
   enrich_with_synonyms ''profil, profil'' ''PERSONNE_CLE''
     \<noteq> ''profil exp'' @ e_acute @ ''rience parcours background, profil'' \<and>
   create_optimized_queries ''profil, profil'' ''PERSONNE_CLE'' =
     Inr [''profil exp'' @ e_acute @ ''rience parcours background, profil exp'' @ e_acute @
            ''rience parcours background management '' @ e_acute @
            ''quipe dirigeants organigramme EODEN 2024 2023'',
          ''profil, profil Reno Energy management dirigeants '' @ e_acute @ ''quipe direction'',
          ''Reno Energy dirigeants management'']"
  by code_simp

text \<open>
  C5 (amended).  For each pair of a term and its synonyms, in the order of the table and
  on the query as enriched so far: a query in which the term does not occur under
  case-insensitive comparison is unchanged; and where the first occurrence under
  case-insensitive comparison is written in the term's exact case, the text before it
  is kept, the occurrence becomes the synonyms, and the rest of the query is treated in
  the same way, so that every such occurrence is replaced and not the first one only.
  The first query returned is the query so enriched, followed by the priority terms of
  the category.

  What is done with an occurrence written in another case is left out here.  There
  the code tests \<^verbatim>\<open>term.lower() in enriched_query.lower()\<close> and then calls the
  case-sensitive \<^verbatim>\<open>enriched_query.replace(term, synonyms)\<close>: the test and the
  replacement do not agree.
\<close>

theorem enrich_step_replaces_every_occurrence:
  "(\<not> str_in (str_lower term) (str_lower q) \<longrightarrow> enrich_step q (term, synonyms) = q) \<and>
   (term \<noteq> [] \<and> \<not> str_in (str_lower term) (str_lower (a @ butlast term)) \<longrightarrow>
      enrich_step (a @ term @ b) (term, synonyms)
        = a @ synonyms @ enrich_step b (term, synonyms)) \<and>
   (str_split base_query \<noteq> [] \<longrightarrow>
      (\<exists>q2 q3. create_optimized_queries base_query prompt_type =
         Inr [create_enhanced_query_with_context
                (case map_of synonym_mappings prompt_type of
                   Some pairs \<Rightarrow> foldl enrich_step base_query pairs
                 | None \<Rightarrow> base_query) prompt_type, q2, q3]))"
  using create_optimized_queries_first[of base_query prompt_type]
    enrich_step_absent[of "term" q synonyms] enrich_step_first[of "term" a b synonyms]
  by blast

text \<open>
  Both occurrences of \<^verbatim>\<open>profil\<close> in \<^verbatim>\<open>Le profil du profil\<close> are replaced, a query
  without the term is unchanged, and the first query for \<^verbatim>\<open>Le profil\<close> in the
  category \<^verbatim>\<open>PERSONNE_CLE\<close>.
\<close>

theorem enrich_step_replaces_every_occurrence_witness:
  "enrich_step (''Le '' @ ''profil'' @ '' du profil'') (''profil'', ''profil parcours'')
     = ''Le '' @ ''profil parcours'' @ '' du '' @ ''profil parcours'' \<and>
   enrich_step ''Le march'' (''profil'', ''profil parcours'') = ''Le march'' \<and>
   create_optimized_queries ''Le profil'' ''PERSONNE_CLE'' =
     Inr [''Le profil exp'' @ e_acute @ ''rience parcours background management '' @ e_acute @
            ''quipe dirigeants organigramme EODEN 2024 2023'',
          ''Le profil Reno Energy management dirigeants '' @ e_acute @ ''quipe direction'',
          ''Reno Energy dirigeants management'']"
proof -
  note first = enrich_step_replaces_every_occurrence[of "''profil''" "''Le march''"
      "''profil parcours''" "''Le ''" "'' du profil''" "''Le profil''" "''PERSONNE_CLE''"]
  note second = enrich_step_replaces_every_occurrence[of "''profil''" "[]"
      "''profil parcours''" "'' du ''" "[]" "''Le profil''" "''PERSONNE_CLE''"]
  have h1: "''profil'' \<noteq> [] \<and>
      \<not> str_in (str_lower ''profil'') (str_lower (''Le '' @ butlast ''profil''))"
    by code_simp
  have h2: "\<not> str_in (str_lower ''profil'') (str_lower (''Le march''))"
    by code_simp
  have h3: "\<not> str_in (str_lower ''profil'') (str_lower ('' du '' @ butlast ''profil''))"
    by code_simp
  have h4: "\<not> str_in (str_lower ''profil'') (str_lower [])"
    by code_simp
  have e: "create_optimized_queries ''Le profil'' ''PERSONNE_CLE'' =
     Inr [''Le profil exp'' @ e_acute @ ''rience parcours background management '' @ e_acute @
            ''quipe dirigeants organigramme EODEN 2024 2023'',
          ''Le profil Reno Energy management dirigeants '' @ e_acute @ ''quipe direction'',
          ''Reno Energy dirigeants management'']"
    by code_simp
  have r0: "enrich_step [] (''profil'', ''profil parcours'') = []"
    using second h4 by blast
  have "enrich_step ('' du '' @ ''profil'' @ []) (''profil'', ''profil parcours'')
      = '' du '' @ ''profil parcours'' @ enrich_step [] (''profil'', ''profil parcours'')"
    using second h1 h3 by blast
  then have r1: "enrich_step '' du profil'' (''profil'', ''profil parcours'')
      = '' du '' @ ''profil parcours''"
    unfolding r0 by simp
  have "enrich_step (''Le '' @ ''profil'' @ '' du profil'') (''profil'', ''profil parcours'')
      = ''Le '' @ ''profil parcours'' @ enrich_step '' du profil'' (''profil'', ''profil parcours'')"
    using first h1 by blast
  then have r2: "enrich_step (''Le '' @ ''profil'' @ '' du profil'') (''profil'', ''profil parcours'')
      = ''Le '' @ ''profil parcours'' @ '' du '' @ ''profil parcours''"
    unfolding r1 .
  have r3: "enrich_step ''Le march'' (''profil'', ''profil parcours'') = ''Le march''"
    using first h2 by blast
  show ?thesis using r2 r3 e by blast
qed

text \<open>
  C6: \<^verbatim>\<open>create_optimized_queries\<close> is total and returns exactly three strings.  The
  code does not: for a base query without a word (empty, or white space only) it raises
  \<^verbatim>\<open>IndexError\<close>, for a recognized category as for an unknown one, because the
  fallback of the short query is computed before the table is consulted.  For every
  other base query it returns three strings, with the generic defaults for an unknown
  category (\<open>create_optimized_queries_three\<close>).
\<close>

theorem create_optimized_queries_raises:
  "create_optimized_queries '''' ''CHIFFRE_AFFAIRES'' = Inl IndexError \<and>
   create_optimized_queries [CHR 0x20, CHR 0x09, CHR 0x0A] ''CONCURRENCE'' = Inl IndexError \<and>
   create_optimized_queries ''  '' ''AUTRE'' = Inl IndexError"
  by code_simp

section \<open>The claim about the names of documents\<close>

lemma decode_utf8_nonempty: "bs \<noteq> [] \<Longrightarrow> decode_utf8 bs \<noteq> []"
  by (cases bs) (auto split: list.splits)

lemma unquote_to_bytes_nonempty: "s \<noteq> [] \<Longrightarrow> unquote_to_bytes s \<noteq> []"
  by (induction s rule: unquote_to_bytes.induct) (auto split: option.splits bool.splits)

lemma unquote_parts_nonempty: "ascii \<noteq> [] \<or> s \<noteq> [] \<Longrightarrow> unquote_parts ascii s \<noteq> []"
proof (induction s arbitrary: ascii)
  case Nil
  then show ?case by (simp add: decode_utf8_nonempty unquote_to_bytes_nonempty)
next
  case (Cons c s)
  show ?case
  proof (cases "(of_char c :: nat) < 128")
    case True
    then show ?thesis using Cons.IH[of "ascii @ [c]"] by simp
  next
    case False
    then show ?thesis by simp
  qed
qed

lemma unquote_nonempty: "s \<noteq> [] \<Longrightarrow> unquote s \<noteq> []"
  by (simp add: unquote_def code_points_def unquote_parts_nonempty)

lemma split_fields_nonempty: "split_fields sep field s \<noteq> []"
  by (induction s arbitrary: field) auto

lemma last_split_fields:
  "last (split_fields sep field s) =
     (if sep \<in> set s then rev (takeWhile (\<lambda>c. c \<noteq> sep) (rev s)) else field @ s)"
proof (induction s arbitrary: field)
  case Nil
  then show ?case by simp
next
  case (Cons c s)
  note ne = split_fields_nonempty
  show ?case
  proof (cases "c = sep")
    case True
    then show ?thesis using Cons.IH[of "[]"] ne
      by (auto simp: takeWhile_append)
  next
    case False
    then show ?thesis using Cons.IH[of "field @ [c]"]
      by (auto simp: takeWhile_append)
  qed
qed

lemma last_str_split_on:
  "last (str_split_on sep s) = rev (takeWhile (\<lambda>c. c \<noteq> sep) (rev s))"
proof (cases "sep \<in> set s")
  case True
  then show ?thesis by (simp add: str_split_on_def last_split_fields)
next
  case False
  then have t: "takeWhile (\<lambda>c. c \<noteq> sep) (rev s) = rev s"
    by (auto simp: takeWhile_eq_all_conv)
  have "last (str_split_on sep s) = s"
    using False by (simp add: str_split_on_def last_split_fields)
  then show ?thesis by (simp only: t rev_rev_ident)
qed

lemma extract_document_name_cases:
  "extract_document_name uri =
     (if uri = [] then code_points ''Document inconnu''
      else if rev (takeWhile (\<lambda>c. c \<noteq> CHR ''/'') (rev uri)) = []
        then code_points ''Document sans nom''
      else unquote (rev (takeWhile (\<lambda>c. c \<noteq> CHR ''/'') (rev uri))))"
  by (simp add: extract_document_name_def last_str_split_on Let_def)

lemma markers_differ: "code_points ''Document sans nom'' \<noteq> code_points ''Document inconnu''"
  by (simp add: code_points_def)

text \<open>
  C8, as stated, fails for a URI that ends in a slash: its final path segment is empty,
  and the name is neither that segment nor the title but the marker
  \<^verbatim>\<open>Document sans nom\<close> of \<^verbatim>\<open>extract_document_name\<close>.
\<close>

theorem document_name_trailing_slash_counterexample:
  "last (str_split_on (CHR ''/'') ''gs://bucket/folder/'') = [] \<and>
   document_name \<lparr>doc_id = ''r7'', struct_data =
       [(''uri'', ''gs://bucket/folder/''), (''title'', ''Q3 Summary'')]\<rparr>
     = code_points ''Document sans nom''"
  by code_simp

text \<open>
  C8 (amended).  The name stored for a result document is resolved in this order.
  Without structured data it is the marker \<^verbatim>\<open>Document inconnu\<close>.  With a non-empty
  \<^verbatim>\<open>uri\<close> whose final path segment (the text after its last slash) is empty, it is
  the marker \<^verbatim>\<open>Document sans nom\<close>.  With a non-empty \<^verbatim>\<open>uri\<close> whose final path
  segment is not empty, it is that segment, percent-decoded by \<^verbatim>\<open>unquote\<close> after the
  segment was taken (a segment without \<^verbatim>\<open>%\<close> is the name as it stands), provided the
  decoded segment is not the text \<^verbatim>\<open>Document inconnu\<close> itself.  With an absent or
  empty \<^verbatim>\<open>uri\<close> it is the \<^verbatim>\<open>title\<close> if that is non-empty, else the \<^verbatim>\<open>name\<close> if
  that is non-empty, else \<^verbatim>\<open>Document inconnu\<close>.

  The name of a document whose decoded segment is the text \<^verbatim>\<open>Document inconnu\<close> is
  left out here: the code takes that text for the sign that the URI gave no name.
\<close>

theorem document_name_resolution:
  "(let data = struct_data doc;
        uri = get_or_empty data ''uri'';
        title = get_or_empty data ''title'';
        name = get_or_empty data ''name'';
        segment = rev (takeWhile (\<lambda>c. c \<noteq> CHR ''/'') (rev uri))
    in (data = [] \<longrightarrow> document_name doc = code_points ''Document inconnu'') \<and>
       (data \<noteq> [] \<and> uri \<noteq> [] \<and> segment = [] \<longrightarrow>
          document_name doc = code_points ''Document sans nom'') \<and>
       (data \<noteq> [] \<and> uri \<noteq> [] \<and> segment \<noteq> [] \<and>
        unquote segment \<noteq> code_points ''Document inconnu'' \<longrightarrow>
          document_name doc = unquote segment) \<and>
       (CHR ''%'' \<notin> set segment \<longrightarrow> unquote segment = code_points segment) \<and>
       (data \<noteq> [] \<and> uri = [] \<longrightarrow>
          document_name doc =
            (if title \<noteq> [] then code_points title
             else if name \<noteq> [] then code_points name
             else code_points ''Document inconnu'')))"
proof -
  let ?uri = "get_or_empty (struct_data doc) ''uri''"
  let ?segment = "rev (takeWhile (\<lambda>c. c \<noteq> CHR ''/'') (rev ?uri))"
  have ne: "unquote ?segment \<noteq> []" if "?segment \<noteq> []"
    using that by (rule unquote_nonempty)
  have a: "struct_data doc = [] \<longrightarrow> document_name doc = code_points ''Document inconnu''"
    by (simp add: document_name_def)
  have b: "struct_data doc \<noteq> [] \<and> ?uri \<noteq> [] \<and> ?segment = [] \<longrightarrow>
      document_name doc = code_points ''Document sans nom''"
    using markers_differ
    by (auto simp: document_name_def extract_document_name_cases Let_def)
      (simp_all add: code_points_def)
  have c: "struct_data doc \<noteq> [] \<and> ?uri \<noteq> [] \<and> ?segment \<noteq> [] \<and>
      unquote ?segment \<noteq> code_points ''Document inconnu'' \<longrightarrow>
      document_name doc = unquote ?segment"
    using ne by (auto simp: document_name_def extract_document_name_cases Let_def)
  have d: "CHR ''%'' \<notin> set ?segment \<longrightarrow> unquote ?segment = code_points ?segment"
    by (simp add: unquote_def)
  have e: "struct_data doc \<noteq> [] \<and> ?uri = [] \<longrightarrow>
      document_name doc =
        (if get_or_empty (struct_data doc) ''title'' \<noteq> []
         then code_points (get_or_empty (struct_data doc) ''title'')
         else if get_or_empty (struct_data doc) ''name'' \<noteq> []
         then code_points (get_or_empty (struct_data doc) ''name'')
         else code_points ''Document inconnu'')"
    by (simp add: document_name_def Let_def)
  show ?thesis unfolding Let_def using a b c d e by blast
qed

text \<open>
  The examples of the specification (the URI \<^verbatim>\<open>gs://bucket/folder/Report%20Final.pdf\<close>,
  an absent and an empty URI with the title \<^verbatim>\<open>Q3 Summary\<close>), a name with accents and
  one with a euro sign, both escaped as UTF-8, a name alone, and nothing usable.
\<close>

theorem document_name_resolution_witness:
  "document_name \<lparr>doc_id = ''r1'', struct_data =
       [(''uri'', ''gs://bucket/folder/Report%20Final.pdf''), (''title'', ''Annual report'')]\<rparr>
     = code_points ''Report Final.pdf'' \<and>
   document_name \<lparr>doc_id = ''r2'', struct_data = [(''title'', ''Q3 Summary'')]\<rparr>
     = code_points ''Q3 Summary'' \<and>
   document_name \<lparr>doc_id = ''r3'', struct_data = [(''uri'', ''''), (''title'', ''Q3 Summary'')]\<rparr>
     = code_points ''Q3 Summary'' \<and>
   document_name \<lparr>doc_id = ''r4'', struct_data = [(''name'', ''notes-2024'')]\<rparr>
     = code_points ''notes-2024'' \<and>
   document_name \<lparr>doc_id = ''r5'', struct_data = [(''author'', ''EODEN'')]\<rparr>
     = code_points ''Document inconnu'' \<and>
   document_name \<lparr>doc_id = ''r6'', struct_data = []\<rparr> = code_points ''Document inconnu'' \<and>
   document_name \<lparr>doc_id = ''r8'', struct_data =
       [(''uri'', ''gs://bucket/r%C3%A9sum%C3%A9.pdf'')]\<rparr>
     = code_points (''r'' @ e_acute @ ''sum'' @ e_acute @ ''.pdf'') \<and>
   document_name \<lparr>doc_id = ''r9'', struct_data = [(''uri'', ''gs://bucket/prix%20%E2%82%AC'')]\<rparr>
     = code_points ''prix '' @ [8364]"
proof -
  let ?d1 = "\<lparr>doc_id = ''r1'', struct_data =
       [(''uri'', ''gs://bucket/folder/Report%20Final.pdf''), (''title'', ''Annual report'')]\<rparr>"
  have s1: "rev (takeWhile (\<lambda>c. c \<noteq> CHR ''/'') (rev ''gs://bucket/folder/Report%20Final.pdf''))
      = ''Report%20Final.pdf''"
    by simp
  have u1: "unquote ''Report%20Final.pdf'' = code_points ''Report Final.pdf''"
    by code_simp
  have n1: "code_points ''Report Final.pdf'' \<noteq> code_points ''Document inconnu''"
    by (simp add: code_points_def)
  have "document_name ?d1 = code_points ''Report Final.pdf''"
    using document_name_resolution[of ?d1] n1
    by (simp add: Let_def get_or_empty_def s1 u1)
  moreover have "document_name \<lparr>doc_id = ''r6'', struct_data = []\<rparr>
      = code_points ''Document inconnu''"
    using document_name_resolution[of "\<lparr>doc_id = ''r6'', struct_data = []\<rparr>"]
    by (simp add: Let_def)
  moreover have "document_name \<lparr>doc_id = ''r2'', struct_data = [(''title'', ''Q3 Summary'')]\<rparr>
     = code_points ''Q3 Summary''"
    using document_name_resolution[of "\<lparr>doc_id = ''r2'', struct_data = [(''title'', ''Q3 Summary'')]\<rparr>"]
    by (simp add: Let_def get_or_empty_def)
  moreover have "document_name \<lparr>doc_id = ''r3'', struct_data = [(''uri'', ''''), (''title'', ''Q3 Summary'')]\<rparr>
     = code_points ''Q3 Summary''"
    by code_simp
  moreover have "document_name \<lparr>doc_id = ''r4'', struct_data = [(''name'', ''notes-2024'')]\<rparr>
     = code_points ''notes-2024''"
    by code_simp
  moreover have "document_name \<lparr>doc_id = ''r5'', struct_data = [(''author'', ''EODEN'')]\<rparr>
     = code_points ''Document inconnu''"
    by code_simp
  moreover have "document_name \<lparr>doc_id = ''r8'', struct_data =
       [(''uri'', ''gs://bucket/r%C3%A9sum%C3%A9.pdf'')]\<rparr>
     = code_points (''r'' @ e_acute @ ''sum'' @ e_acute @ ''.pdf'')"
    by code_simp
  moreover have "document_name \<lparr>doc_id = ''r9'', struct_data = [(''uri'', ''gs://bucket/prix%20%E2%82%AC'')]\<rparr>
     = code_points ''prix '' @ [8364]"
    by code_simp
  ultimately show ?thesis by blast
qed

section \<open>The claim about the interactive loops\<close>

lemma snd_emit: "snd (emit a r) = snd r"
  by (simp add: emit_def)

lemma advanced_main_loop_terminated:
  "snd (advanced_main_loop execute available_vars reads) = Terminated \<longleftrightarrow>
     (\<exists>r\<in>set reads. r = KeyboardInterrupt \<or>
        (\<exists>c. r = Entered c \<and>
           (str_lower c \<in> set [''quit'', ''exit'', ''q''] \<or>
            (str_lower c \<noteq> ''list'' \<and> c \<in> set available_vars \<and> execute c = Interrupted))))"
proof (induction execute available_vars reads rule: advanced_main_loop.induct)
  case (1 execute available_vars)
  then show ?case by simp
next
  case (2 execute available_vars rest)
  then show ?case by simp
next
  case (3 execute available_vars rest)
  then show ?case by (simp add: snd_emit)
next
  case (4 execute available_vars choice rest)
  show ?case
  proof (cases "str_lower choice \<in> set [''quit'', ''exit'', ''q'']")
    case True
    then show ?thesis by auto
  next
    case quit: False
    show ?thesis
    proof (cases "str_lower choice = ''list''")
      case True
      then show ?thesis using quit "4.IH"(1)[OF quit True] by (simp add: snd_emit)
    next
      case list: False
      show ?thesis
      proof (cases "choice \<in> set available_vars")
        case True
        show ?thesis
        proof (cases "execute choice")
          case Returned
          then show ?thesis
            using quit list True "4.IH"(2)[OF quit list True Returned] by (simp add: snd_emit)
        next
          case Raised
          then show ?thesis
            using quit list True "4.IH"(3)[OF quit list True Raised] by (simp add: snd_emit)
        next
          case Interrupted
          then show ?thesis using quit list True by auto
        qed
      next
        case False
        then show ?thesis
          using quit list "4.IH"(4)[OF quit list False] by (simp add: snd_emit)
      qed
    qed
  qed
qed

lemma simple_main_loop_waiting:
  assumes "\<forall>r\<in>set reads. \<exists>c. r = Entered c \<and> execute c \<noteq> Raised"
  shows "snd (simple_main_loop execute available_vars reads) = AwaitingInput \<longleftrightarrow>
     (\<forall>r\<in>set reads. \<exists>c. r = Entered c \<and> str_lower c \<notin> set [''quit'', ''exit'', ''q''] \<and>
        (str_lower c = ''list'' \<or> c \<notin> set available_vars))"
  using assms
proof (induction execute available_vars reads rule: simple_main_loop.induct)
  case (1 execute available_vars)
  then show ?case by simp
next
  case (2 execute available_vars rest)
  then show ?case by simp
next
  case (3 execute available_vars rest)
  then show ?case by simp
next
  case (4 execute available_vars choice rest)
  have rest: "\<forall>r\<in>set rest. \<exists>c. r = Entered c \<and> execute c \<noteq> Raised"
    using "4.prems" by simp
  have nr: "execute choice \<noteq> Raised" using "4.prems" by simp
  show ?case
  proof (cases "str_lower choice \<in> set [''quit'', ''exit'', ''q'']")
    case True
    then show ?thesis by auto
  next
    case quit: False
    show ?thesis
    proof (cases "str_lower choice = ''list''")
      case True
      then show ?thesis using quit "4.IH"(1)[OF quit True rest] by (simp add: snd_emit)
    next
      case list: False
      show ?thesis
      proof (cases "choice \<in> set available_vars")
        case True
        then show ?thesis using quit list nr by (cases "execute choice") auto
      next
        case False
        then show ?thesis
          using quit list "4.IH"(3)[OF quit list False rest] by (simp add: snd_emit)
      qed
    qed
  qed
qed

text \<open>
  C10.  When the user enters a valid key and its execution returns, the loop of the
  simple script ends there, whatever input would follow, and the loop of the advanced
  script goes on with the rest of the input.  In the simple script an entered
  \<^verbatim>\<open>list\<close> or unknown key keeps the loop going; and as long as no read and no
  execution raises, the simple loop is still waiting for input after a sequence of
  entries exactly when every entry was \<^verbatim>\<open>list\<close> or an unknown key.  The loop of the
  advanced script has ended exactly when the input held \<^verbatim>\<open>quit\<close>, \<^verbatim>\<open>exit\<close> or
  \<^verbatim>\<open>q\<close>, or an interrupt from the keyboard (at the prompt or during an execution).
\<close>

theorem main_loops_after_execution:
  "(choice \<in> set available_vars \<and> str_lower choice \<notin> set [''quit'', ''exit'', ''q''] \<and>
    str_lower choice \<noteq> ''list'' \<and> execute choice = Returned \<longrightarrow>
      simple_main_loop execute available_vars (Entered choice # rest)
        = ([Executed choice], Terminated) \<and>
      advanced_main_loop execute available_vars (Entered choice # rest)
        = emit (Executed choice) (advanced_main_loop execute available_vars rest)) \<and>
   (str_lower choice \<notin> set [''quit'', ''exit'', ''q''] \<and>
    (str_lower choice = ''list'' \<or> choice \<notin> set available_vars) \<longrightarrow>
      simple_main_loop execute available_vars (Entered choice # rest)
        = emit (if str_lower choice = ''list'' then Listed else NotFound choice)
            (simple_main_loop execute available_vars rest)) \<and>
   ((\<forall>r\<in>set reads. \<exists>c. r = Entered c \<and> execute c \<noteq> Raised) \<longrightarrow>
      (snd (simple_main_loop execute available_vars reads) = AwaitingInput \<longleftrightarrow>
         (\<forall>r\<in>set reads. \<exists>c. r = Entered c \<and> str_lower c \<notin> set [''quit'', ''exit'', ''q''] \<and>
            (str_lower c = ''list'' \<or> c \<notin> set available_vars)))) \<and>
   (snd (advanced_main_loop execute available_vars reads) = Terminated \<longleftrightarrow>
      (\<exists>r\<in>set reads. r = KeyboardInterrupt \<or>
         (\<exists>c. r = Entered c \<and>
            (str_lower c \<in> set [''quit'', ''exit'', ''q''] \<or>
             (str_lower c \<noteq> ''list'' \<and> c \<in> set available_vars \<and> execute c = Interrupted)))))"
proof -
  have a: "choice \<in> set available_vars \<and> str_lower choice \<notin> set [''quit'', ''exit'', ''q''] \<and>
    str_lower choice \<noteq> ''list'' \<and> execute choice = Returned \<longrightarrow>
      simple_main_loop execute available_vars (Entered choice # rest)
        = ([Executed choice], Terminated) \<and>
      advanced_main_loop execute available_vars (Entered choice # rest)
        = emit (Executed choice) (advanced_main_loop execute available_vars rest)"
    by simp
  have b: "str_lower choice \<notin> set [''quit'', ''exit'', ''q''] \<and>
    (str_lower choice = ''list'' \<or> choice \<notin> set available_vars) \<longrightarrow>
      simple_main_loop execute available_vars (Entered choice # rest)
        = emit (if str_lower choice = ''list'' then Listed else NotFound choice)
            (simple_main_loop execute available_vars rest)"
    by auto
  show ?thesis
    using a b simple_main_loop_waiting[of reads execute available_vars]
      advanced_main_loop_terminated[of execute available_vars reads]
    by blast
qed

text \<open>
  Two valid keys are entered one after the other: the simple script executes the first
  and ends, the advanced script executes both and waits; it ends on \<^verbatim>\<open>QUIT\<close> or on
  an interrupt.
\<close>

theorem main_loops_after_execution_witness:
  "simple_main_loop always_returns [''MARCHE'', ''OPERATION'']
       (Entered ''MARCHE'' # [Entered ''OPERATION''])
     = ([Executed ''MARCHE''], Terminated) \<and>
   advanced_main_loop always_returns [''MARCHE'', ''OPERATION'']
       (Entered ''MARCHE'' # [Entered ''OPERATION''])
     = ([Executed ''MARCHE'', Executed ''OPERATION''], AwaitingInput) \<and>
   simple_main_loop always_returns [''MARCHE'', ''OPERATION'']
       [Entered ''LIST'', Entered ''INCONNU'', Entered ''MARCHE'', Entered ''OPERATION'']
     = ([Listed, NotFound ''INCONNU'', Executed ''MARCHE''], Terminated) \<and>
   advanced_main_loop always_returns [''MARCHE'', ''OPERATION'']
       [Entered ''LIST'', Entered ''INCONNU'', Entered ''MARCHE'', Entered ''OPERATION'']
     = ([Listed, NotFound ''INCONNU'', Executed ''MARCHE'', Executed ''OPERATION''],
        AwaitingInput) \<and>
   advanced_main_loop always_returns [''MARCHE'', ''OPERATION'']
       [Entered ''MARCHE'', Entered ''QUIT'', Entered ''OPERATION'']
     = ([Executed ''MARCHE'', Farewell], Terminated) \<and>
   advanced_main_loop always_returns [''MARCHE'', ''OPERATION'']
       [Entered ''MARCHE'', KeyboardInterrupt, Entered ''OPERATION'']
     = ([Executed ''MARCHE'', Farewell], Terminated)"
proof -
  have h: "''MARCHE'' \<in> set [''MARCHE'', ''OPERATION''] \<and>
      str_lower ''MARCHE'' \<notin> set [''quit'', ''exit'', ''q''] \<and>
      str_lower ''MARCHE'' \<noteq> ''list'' \<and> always_returns ''MARCHE'' = Returned"
    by code_simp
  have r: "advanced_main_loop always_returns [''MARCHE'', ''OPERATION''] [Entered ''OPERATION'']
      = ([Executed ''OPERATION''], AwaitingInput)"
    by code_simp
  from main_loops_after_execution[of "''MARCHE''" "[''MARCHE'', ''OPERATION'']" always_returns
      "[Entered ''OPERATION'']"] h
  have "simple_main_loop always_returns [''MARCHE'', ''OPERATION'']
       (Entered ''MARCHE'' # [Entered ''OPERATION''])
     = ([Executed ''MARCHE''], Terminated) \<and>
   advanced_main_loop always_returns [''MARCHE'', ''OPERATION'']
       (Entered ''MARCHE'' # [Entered ''OPERATION''])
     = emit (Executed ''MARCHE'')
         (advanced_main_loop always_returns [''MARCHE'', ''OPERATION''] [Entered ''OPERATION''])"
    by blast
  then have "simple_main_loop always_returns [''MARCHE'', ''OPERATION'']
       (Entered ''MARCHE'' # [Entered ''OPERATION''])
     = ([Executed ''MARCHE''], Terminated) \<and>
   advanced_main_loop always_returns [''MARCHE'', ''OPERATION'']
       (Entered ''MARCHE'' # [Entered ''OPERATION''])
     = ([Executed ''MARCHE'', Executed ''OPERATION''], AwaitingInput)"
    unfolding r by (simp add: emit_def)
  moreover have "simple_main_loop always_returns [''MARCHE'', ''OPERATION'']
       [Entered ''LIST'', Entered ''INCONNU'', Entered ''MARCHE'', Entered ''OPERATION'']
     = ([Listed, NotFound ''INCONNU'', Executed ''MARCHE''], Terminated)"
    by code_simp
  moreover have "advanced_main_loop always_returns [''MARCHE'', ''OPERATION'']
       [Entered ''LIST'', Entered ''INCONNU'', Entered ''MARCHE'', Entered ''OPERATION'']
     = ([Listed, NotFound ''INCONNU'', Executed ''MARCHE'', Executed ''OPERATION''],
        AwaitingInput)"
    by code_simp
  moreover have "advanced_main_loop always_returns [''MARCHE'', ''OPERATION'']
       [Entered ''MARCHE'', Entered ''QUIT'', Entered ''OPERATION'']
     = ([Executed ''MARCHE'', Farewell], Terminated)"
    by code_simp
  moreover have "advanced_main_loop always_returns [''MARCHE'', ''OPERATION'']
       [Entered ''MARCHE'', KeyboardInterrupt, Entered ''OPERATION'']
     = ([Executed ''MARCHE'', Farewell], Terminated)"
    by code_simp
  ultimately show ?thesis by blast
qed

end
